theory Spec2Isabelle
  imports Main "HOL-Library.Word" "HOL-Library.Multiset" "HOL-Library.AList"
begin

section \<open>A BitTorrent client: bencoding, peer wire protocol, piece scheduler\<close>

text \<open>
  The development embeds the Python sources \<^verbatim>\<open>client/bencode.py\<close>,
  \<^verbatim>\<open>client/communication.py\<close>, \<^verbatim>\<open>client/client.py\<close> and
  \<^verbatim>\<open>client/tracker.py\<close>.

  Reading conventions. Python integers are \<^typ>\<open>int\<close>; a \<^verbatim>\<open>bytes\<close> value of
  the bencoding layer is a \<^typ>\<open>string\<close>, a frame of the wire protocol a list of
  8-bit words. Every \<^verbatim>\<open>raise\<close> is a value \<open>Inl e\<close> of a sum type. Module-level
  names that the files use without binding them (the standard modules
  \<^verbatim>\<open>math\<close>, \<^verbatim>\<open>os\<close>, \<^verbatim>\<open>time\<close>, \<^verbatim>\<open>logging\<close>, the builtin spelt
  \<^verbatim>\<open>isInstance\<close>, the modules spelt \<^verbatim>\<open>bencoding\<close>, \<^verbatim>\<open>logginh\<close> and
  \<^verbatim>\<open>client.protocol\<close>, the exception class \<^verbatim>\<open>ProtocolError\<close>) are read as
  the objects they denote, and plain
  typing slips of the syntax (a blank inside an identifier, a missing colon or
  parenthesis) are read through. Attribute look-ups on the classes of the
  sources are modelled as Python resolves them: calling a method that a class
  does not define raises \<^verbatim>\<open>AttributeError\<close>. Logging has no effect on the state
  and is left out. The clock \<^verbatim>\<open>time.time()\<close> is an input, passed in
  milliseconds as \<open>now\<close>.
\<close>

datatype py_error =
    EOFError | RuntimeError | IndexError | ValueError | TypeError
  | AttributeError | KeyError | ZeroDivisionError | StructError | ConnectionError

type_synonym byte = "8 word"
type_synonym bytes = "byte list"

subsection \<open>Blocks and pieces (\<^verbatim>\<open>client.py\<close>)\<close>

definition REQUEST_SIZE :: int where
  "REQUEST_SIZE = 2 ^ 14"

datatype Status = Missing | Pending | Retrieved

record Block =
  piece :: int
  offset :: int
  block_length :: int
  status :: Status
  data :: "bytes option"

text \<open>\<^verbatim>\<open>Block.__init__\<close>: a new block is Missing and carries no data.\<close>

definition new_Block :: "int \<Rightarrow> int \<Rightarrow> int \<Rightarrow> Block" where
  "new_Block p off len =
     \<lparr>piece = p, offset = off, block_length = len, status = Missing, data = None\<rparr>"

record Piece =
  index :: int
  blocks :: "Block list"
  hash :: bytes

record Torrent =
  pieces :: "bytes list"
  piece_length :: int
  total_size :: int

text \<open>
  \<^verbatim>\<open>math.ceil(a / b)\<close> for a positive divisor \<open>b\<close>. The source divides in floating
  point; for the divisor \<open>2 ^ 14\<close> the quotient is exact for every size below
  \<open>2 ^ 53\<close>, and the model takes the exact ceiling.
\<close>

definition ceil_div :: "int \<Rightarrow> int \<Rightarrow> int" where
  "ceil_div a b = - ((- a) div b)"

text \<open>\<^verbatim>\<open>range(n)\<close>: empty for \<open>n \<le> 0\<close>.\<close>

definition py_range :: "int \<Rightarrow> int list" where
  "py_range n = map int [0..<nat n]"

text \<open>
  The list comprehension
  \<^verbatim>\<open>[Block(index, offset * REQUEST_SIZE, REQUEST_SIZE) for offset in range(n)]\<close>.
\<close>

definition request_blocks :: "int \<Rightarrow> int \<Rightarrow> Block list" where
  "request_blocks idx n =
     map (\<lambda>off. new_Block idx (off * REQUEST_SIZE) REQUEST_SIZE) (py_range n)"

text \<open>
  The \<^verbatim>\<open>else\<close> branch of the loop of \<^verbatim>\<open>_initiate_pieces\<close>: the blocks of the
  final piece. \<^verbatim>\<open>%\<close> by zero raises; \<^verbatim>\<open>blocks[-1]\<close> raises on an empty list.
\<close>

definition last_piece_blocks :: "Torrent \<Rightarrow> int \<Rightarrow> py_error + Block list" where
  "last_piece_blocks t idx =
     (if piece_length t = 0 then Inl ZeroDivisionError
      else
        let last_length = total_size t mod piece_length t;
            num_blocks = ceil_div last_length REQUEST_SIZE;
            bs = request_blocks idx num_blocks
        in if last_length mod REQUEST_SIZE > 0
           then (if bs = [] then Inl IndexError
                 else Inr (bs[length bs - 1 :=
                             (last bs)\<lparr>block_length := last_length mod REQUEST_SIZE\<rparr>]))
           else Inr bs)"

text \<open>
  The loop \<^verbatim>\<open>for index, hash_value in enumerate(torrent.pieces)\<close>, from position
  \<open>idx\<close> on; \<open>tot\<close> is \<^verbatim>\<open>len(torrent.pieces)\<close> and \<open>std\<close> is
  \<^verbatim>\<open>std_piece_blocks\<close>.
\<close>

fun initiate_loop :: "Torrent \<Rightarrow> int \<Rightarrow> int \<Rightarrow> int \<Rightarrow> bytes list \<Rightarrow> py_error + Piece list" where
  "initiate_loop t tot std idx [] = Inr []"
| "initiate_loop t tot std idx (h # hs) =
     (case (if idx < tot - 1 then Inr (request_blocks idx std)
            else last_piece_blocks t idx) of
        Inl e \<Rightarrow> Inl e
      | Inr bs \<Rightarrow>
          (case initiate_loop t tot std (idx + 1) hs of
             Inl e \<Rightarrow> Inl e
           | Inr ps \<Rightarrow> Inr (\<lparr>index = idx, blocks = bs, hash = h\<rparr> # ps)))"

definition initiate_pieces :: "Torrent \<Rightarrow> py_error + Piece list" where
  "initiate_pieces t =
     initiate_loop t (int (length (pieces t)))
       (ceil_div (piece_length t) REQUEST_SIZE) 0 (pieces t)"

text \<open>The size a piece's blocks add up to.\<close>

definition blocks_size :: "Piece \<Rightarrow> int" where
  "blocks_size p = sum_list (map block_length (blocks p))"

subsection \<open>Methods of \<^verbatim>\<open>Piece\<close>\<close>

text \<open>\<^verbatim>\<open>Piece.reset\<close>: every block back to Missing (the data stays).\<close>

definition Piece_reset :: "Piece \<Rightarrow> Piece" where
  "Piece_reset p = p\<lparr>blocks := map (\<lambda>b. b\<lparr>status := Missing\<rparr>) (blocks p)\<rparr>"

text \<open>
  \<^verbatim>\<open>Piece.next_request\<close>: the first block whose status is Missing is set to
  Pending in place and returned; \<open>None\<close> when no block is Missing.
\<close>

fun mark_first_missing :: "Block list \<Rightarrow> Block list \<times> Block option" where
  "mark_first_missing [] = ([], None)"
| "mark_first_missing (b # bs) =
     (if status b = Missing
      then (b\<lparr>status := Pending\<rparr> # bs, Some (b\<lparr>status := Pending\<rparr>))
      else (case mark_first_missing bs of (bs', r) \<Rightarrow> (b # bs', r)))"

definition Piece_next_request :: "Piece \<Rightarrow> Piece \<times> Block option" where
  "Piece_next_request p =
     (case mark_first_missing (blocks p) of (bs, r) \<Rightarrow> (p\<lparr>blocks := bs\<rparr>, r))"

text \<open>
  An object found as the first element of a list that satisfies a test is
  changed, or removed, at that position.
\<close>

fun update_first :: "('a \<Rightarrow> bool) \<Rightarrow> ('a \<Rightarrow> 'a) \<Rightarrow> 'a list \<Rightarrow> 'a list" where
  "update_first P f [] = []"
| "update_first P f (x # xs) = (if P x then f x # xs else x # update_first P f xs)"

fun remove_first :: "('a \<Rightarrow> bool) \<Rightarrow> 'a list \<Rightarrow> 'a list" where
  "remove_first P [] = []"
| "remove_first P (x # xs) = (if P x then xs else x # remove_first P xs)"

text \<open>
  \<^verbatim>\<open>Piece.block_received\<close>: the first block at the offset becomes Retrieved
  and takes the data; without such a block only a warning is logged.
\<close>

definition Piece_block_received :: "Piece \<Rightarrow> int \<Rightarrow> bytes \<Rightarrow> Piece" where
  "Piece_block_received p off d =
     p\<lparr>blocks := update_first (\<lambda>b. offset b = off)
                    (\<lambda>b. b\<lparr>status := Retrieved, data := Some d\<rparr>) (blocks p)\<rparr>"

definition Piece_is_complete :: "Piece \<Rightarrow> bool" where
  "Piece_is_complete p = (length (filter (\<lambda>b. status b \<noteq> Retrieved) (blocks p)) = 0)"

text \<open>
  The property \<^verbatim>\<open>Piece.data\<close>: the blocks sorted by offset (a stable sort),
  their data joined; \<^verbatim>\<open>b''.join\<close> raises \<^verbatim>\<open>TypeError\<close> on a block without data.
\<close>

fun join_data :: "bytes option list \<Rightarrow> py_error + bytes" where
  "join_data [] = Inr []"
| "join_data (None # ds) = Inl TypeError"
| "join_data (Some d # ds) =
     (case join_data ds of Inl e \<Rightarrow> Inl e | Inr r \<Rightarrow> Inr (d @ r))"

definition Piece_data :: "Piece \<Rightarrow> py_error + bytes" where
  "Piece_data p = join_data (map data (sort_key offset (blocks p)))"

text \<open>\<^verbatim>\<open>Piece.is_hash_matching\<close>; the hash function \<^verbatim>\<open>sha1\<close> is a parameter.\<close>

definition Piece_is_hash_matching :: "(bytes \<Rightarrow> bytes) \<Rightarrow> Piece \<Rightarrow> py_error + bool" where
  "Piece_is_hash_matching sha1 p =
     (case Piece_data p of Inl e \<Rightarrow> Inl e | Inr d \<Rightarrow> Inr (hash p = sha1 d))"

subsection \<open>The piece manager\<close>

record PendingRequest =
  block :: Block
  added :: int

text \<open>
  The state of a \<^verbatim>\<open>PieceManager\<close>. The dictionary \<^verbatim>\<open>peers\<close> is an association
  list in insertion order, a bitfield a list of bits. The three lists hold the
  \<^verbatim>\<open>Piece\<close> objects themselves; every object is created once by
  \<^verbatim>\<open>_initiate_pieces\<close> and sits at one position of one list, so a change
  through a reference is a change at that position. \<open>written\<close> is the output
  file as the sequence of positional writes \<^verbatim>\<open>(pos, data)\<close> of \<^verbatim>\<open>_write\<close>.
\<close>

record PieceManager =
  torrent :: Torrent
  peers :: "(bytes \<times> bool list) list"
  pending_blocks :: "PendingRequest list"
  missing_pieces :: "Piece list"
  ongoing_pieces :: "Piece list"
  have_pieces :: "Piece list"
  max_pending_time :: int
  total_pieces :: nat
  written :: "(int \<times> bytes) list"

text \<open>\<^verbatim>\<open>PieceManager.__init__\<close>.\<close>

definition new_PieceManager :: "Torrent \<Rightarrow> py_error + PieceManager" where
  "new_PieceManager t =
     (case initiate_pieces t of
        Inl e \<Rightarrow> Inl e
      | Inr ps \<Rightarrow>
          Inr \<lparr>torrent = t, peers = [], pending_blocks = [], missing_pieces = ps,
               ongoing_pieces = [], have_pieces = [], max_pending_time = 300 * 1000,
               total_pieces = length (pieces t), written = []\<rparr>)"

text \<open>
  Indexing a bit array, \<^verbatim>\<open>bits[i]\<close> and \<^verbatim>\<open>bits[i] = 1\<close>: a negative index
  counts from the end, an index out of range raises \<^verbatim>\<open>IndexError\<close>.
\<close>

definition bit_get :: "bool list \<Rightarrow> int \<Rightarrow> py_error + bool" where
  "bit_get bits i =
     (let n = int (length bits); j = (if i < 0 then n + i else i)
      in if 0 \<le> j \<and> j < n then Inr (bits ! nat j) else Inl IndexError)"

definition bit_set :: "bool list \<Rightarrow> int \<Rightarrow> py_error + bool list" where
  "bit_set bits i =
     (let n = int (length bits); j = (if i < 0 then n + i else i)
      in if 0 \<le> j \<and> j < n then Inr (bits[nat j := True]) else Inl IndexError)"

text \<open>The expression \<^verbatim>\<open>self.peers[peer_id][i]\<close>.\<close>

definition peer_has :: "PieceManager \<Rightarrow> bytes \<Rightarrow> int \<Rightarrow> py_error + bool" where
  "peer_has s peer_id i =
     (case map_of (peers s) peer_id of
        None \<Rightarrow> Inl KeyError
      | Some bits \<Rightarrow> bit_get bits i)"

definition add_peer :: "PieceManager \<Rightarrow> bytes \<Rightarrow> bool list \<Rightarrow> PieceManager" where
  "add_peer s peer_id bitfield = s\<lparr>peers := AList.update peer_id bitfield (peers s)\<rparr>"

definition update_peer :: "PieceManager \<Rightarrow> bytes \<Rightarrow> int \<Rightarrow> PieceManager \<times> (py_error + unit)" where
  "update_peer s peer_id i =
     (case map_of (peers s) peer_id of
        None \<Rightarrow> (s, Inr ())
      | Some bits \<Rightarrow>
          (case bit_set bits i of
             Inl e \<Rightarrow> (s, Inl e)
           | Inr bits' \<Rightarrow> (s\<lparr>peers := AList.update peer_id bits' (peers s)\<rparr>, Inr ())))"

definition remove_peer :: "PieceManager \<Rightarrow> bytes \<Rightarrow> PieceManager" where
  "remove_peer s peer_id =
     (if map_of (peers s) peer_id \<noteq> None
      then s\<lparr>peers := AList.delete peer_id (peers s)\<rparr> else s)"

text \<open>
  \<^verbatim>\<open>_expired_requests\<close>. \<^verbatim>\<open>PendingRequest\<close> is a \<^verbatim>\<open>namedtuple\<close>, whose fields
  cannot be assigned: the statement \<^verbatim>\<open>request.added = current\<close> raises
  \<^verbatim>\<open>AttributeError\<close>.
\<close>

definition namedtuple_setattr_added :: "PendingRequest \<Rightarrow> int \<Rightarrow> py_error + PendingRequest" where
  "namedtuple_setattr_added r v = Inl AttributeError"

fun expired_scan ::
  "PieceManager \<Rightarrow> bytes \<Rightarrow> int \<Rightarrow> PendingRequest list \<Rightarrow> py_error + Block option" where
  "expired_scan s peer_id current [] = Inr None"
| "expired_scan s peer_id current (request # rest) =
     (case peer_has s peer_id (piece (block request)) of
        Inl e \<Rightarrow> Inl e
      | Inr has \<Rightarrow>
          if has \<and> added request + max_pending_time s < current
          then (case namedtuple_setattr_added request current of
                  Inl e \<Rightarrow> Inl e
                | Inr request' \<Rightarrow> Inr (Some (block request')))
          else expired_scan s peer_id current rest)"

definition expired_requests :: "PieceManager \<Rightarrow> bytes \<Rightarrow> int \<Rightarrow> py_error + Block option" where
  "expired_requests s peer_id now = expired_scan s peer_id now (pending_blocks s)"

text \<open>
  \<^verbatim>\<open>_next_ongoing\<close>: the scan of \<^verbatim>\<open>ongoing_pieces\<close> returns the list with the
  chosen block marked Pending, and the block.
\<close>

fun ongoing_scan ::
  "PieceManager \<Rightarrow> bytes \<Rightarrow> Piece list \<Rightarrow> py_error + (Piece list \<times> Block option)" where
  "ongoing_scan s peer_id [] = Inr ([], None)"
| "ongoing_scan s peer_id (p # ps) =
     (case peer_has s peer_id (index p) of
        Inl e \<Rightarrow> Inl e
      | Inr has \<Rightarrow>
          (case (if has then Piece_next_request p else (p, None)) of
             (p', Some b) \<Rightarrow> Inr (p' # ps, Some b)
           | (p', None) \<Rightarrow>
               (case ongoing_scan s peer_id ps of
                  Inl e \<Rightarrow> Inl e
                | Inr (ps', r) \<Rightarrow> Inr (p' # ps', r))))"

definition next_ongoing ::
  "PieceManager \<Rightarrow> bytes \<Rightarrow> int \<Rightarrow> py_error + (PieceManager \<times> Block option)" where
  "next_ongoing s peer_id now =
     (case ongoing_scan s peer_id (ongoing_pieces s) of
        Inl e \<Rightarrow> Inl e
      | Inr (ps, None) \<Rightarrow> Inr (s\<lparr>ongoing_pieces := ps\<rparr>, None)
      | Inr (ps, Some b) \<Rightarrow>
          Inr (s\<lparr>ongoing_pieces := ps,
                 pending_blocks := pending_blocks s @ [\<lparr>block = b, added = now\<rparr>]\<rparr>,
               Some b))"

text \<open>
  \<^verbatim>\<open>_get_rarest_piece\<close>. \<open>count_holders\<close> is the inner loop over all peers,
  \<open>piece_counts\<close> the dictionary \<^verbatim>\<open>piece_count\<close> in insertion order (a piece
  enters it with its first increment), \<open>py_min_by\<close> is \<^verbatim>\<open>min(..., key=...)\<close>:
  the first entry of least count, \<^verbatim>\<open>ValueError\<close> on an empty dictionary.
\<close>

fun count_holders :: "(bytes \<times> bool list) list \<Rightarrow> int \<Rightarrow> py_error + nat" where
  "count_holders [] i = Inr 0"
| "count_holders ((p, bits) # rest) i =
     (case bit_get bits i of
        Inl e \<Rightarrow> Inl e
      | Inr has \<Rightarrow>
          (case count_holders rest i of
             Inl e \<Rightarrow> Inl e
           | Inr n \<Rightarrow> Inr (if has then n + 1 else n)))"

fun piece_counts ::
  "PieceManager \<Rightarrow> bytes \<Rightarrow> Piece list \<Rightarrow> py_error + (Piece \<times> nat) list" where
  "piece_counts s peer_id [] = Inr []"
| "piece_counts s peer_id (p # ps) =
     (case peer_has s peer_id (index p) of
        Inl e \<Rightarrow> Inl e
      | Inr has \<Rightarrow>
          if \<not> has then piece_counts s peer_id ps
          else (case count_holders (peers s) (index p) of
                  Inl e \<Rightarrow> Inl e
                | Inr n \<Rightarrow>
                    (case piece_counts s peer_id ps of
                       Inl e \<Rightarrow> Inl e
                     | Inr cs \<Rightarrow> Inr (if n > 0 then (p, n) # cs else cs))))"

fun least_first :: "'a \<times> nat \<Rightarrow> ('a \<times> nat) list \<Rightarrow> 'a" where
  "least_first (p, n) [] = p"
| "least_first (p, n) ((q, m) # cs) =
     (if m < n then least_first (q, m) cs else least_first (p, n) cs)"

definition py_min_by :: "('a \<times> nat) list \<Rightarrow> py_error + 'a" where
  "py_min_by cs = (case cs of [] \<Rightarrow> Inl ValueError | c # cs' \<Rightarrow> Inr (least_first c cs'))"

definition get_rarest_piece ::
  "PieceManager \<Rightarrow> bytes \<Rightarrow> py_error + (PieceManager \<times> Piece)" where
  "get_rarest_piece s peer_id =
     (case piece_counts s peer_id (missing_pieces s) of
        Inl e \<Rightarrow> Inl e
      | Inr piece_count \<Rightarrow>
          (case py_min_by piece_count of
             Inl e \<Rightarrow> Inl e
           | Inr rarest_piece \<Rightarrow>
               Inr (s\<lparr>missing_pieces := remove1 rarest_piece (missing_pieces s),
                      ongoing_pieces := ongoing_pieces s @ [rarest_piece]\<rparr>,
                    rarest_piece)))"

text \<open>
  \<^verbatim>\<open>next_request\<close>. The result is the state when the call ends and either the
  exception it raises or the block (or \<open>None\<close>) it returns. No helper changes a
  list before it raises, so the state of a raising call is the one it started
  from. In the third case the piece just moved is the last of
  \<^verbatim>\<open>ongoing_pieces\<close>, and \<^verbatim>\<open>Piece.next_request\<close> changes it there.
\<close>

definition next_request ::
  "PieceManager \<Rightarrow> bytes \<Rightarrow> int \<Rightarrow> PieceManager \<times> (py_error + Block option)" where
  "next_request s peer_id now =
     (if map_of (peers s) peer_id = None then (s, Inr None)
      else
        (case expired_requests s peer_id now of
           Inl e \<Rightarrow> (s, Inl e)
         | Inr (Some b) \<Rightarrow> (s, Inr (Some b))
         | Inr None \<Rightarrow>
             (case next_ongoing s peer_id now of
                Inl e \<Rightarrow> (s, Inl e)
              | Inr (s1, Some b) \<Rightarrow> (s1, Inr (Some b))
              | Inr (s1, None) \<Rightarrow>
                  (case get_rarest_piece s1 peer_id of
                     Inl e \<Rightarrow> (s1, Inl e)
                   | Inr (s2, rarest) \<Rightarrow>
                       (case Piece_next_request rarest of
                          (rarest', r) \<Rightarrow>
                            (s2\<lparr>ongoing_pieces := butlast (ongoing_pieces s2) @ [rarest']\<rparr>,
                             Inr r))))))"

text \<open>
  \<^verbatim>\<open>block_received\<close>: the first pending request of the block is deleted, the
  first ongoing piece of that index takes the data; a complete piece whose
  hash matches is written at \<^verbatim>\<open>index * piece_length\<close> and moved to
  \<^verbatim>\<open>have_pieces\<close>, a complete piece whose hash differs is reset.
\<close>

definition block_received ::
  "(bytes \<Rightarrow> bytes) \<Rightarrow> PieceManager \<Rightarrow> bytes \<Rightarrow> int \<Rightarrow> int \<Rightarrow> bytes
     \<Rightarrow> PieceManager \<times> (py_error + unit)" where
  "block_received sha1 s peer_id piece_index block_offset d =
     (let s1 = s\<lparr>pending_blocks :=
                   remove_first (\<lambda>r. piece (block r) = piece_index \<and> offset (block r) = block_offset)
                     (pending_blocks s)\<rparr>
      in case filter (\<lambda>p. index p = piece_index) (ongoing_pieces s1) of
           [] \<Rightarrow> (s1, Inr ())
         | p # _ \<Rightarrow>
             let p' = Piece_block_received p block_offset d;
                 s2 = s1\<lparr>ongoing_pieces :=
                          update_first (\<lambda>q. index q = piece_index) (\<lambda>q. p') (ongoing_pieces s1)\<rparr>
             in if Piece_is_complete p'
                then (case Piece_is_hash_matching sha1 p' of
                        Inl e \<Rightarrow> (s2, Inl e)
                      | Inr True \<Rightarrow>
                          (case Piece_data p' of
                             Inl e \<Rightarrow> (s2, Inl e)
                           | Inr bs \<Rightarrow>
                               (s2\<lparr>written := written s2 @ [(index p' * piece_length (torrent s2), bs)],
                                   ongoing_pieces :=
                                     remove_first (\<lambda>q. index q = piece_index) (ongoing_pieces s2),
                                   have_pieces := have_pieces s2 @ [p']\<rparr>,
                                Inr ()))
                      | Inr False \<Rightarrow>
                          (s2\<lparr>ongoing_pieces :=
                                update_first (\<lambda>q. index q = piece_index) Piece_reset
                                  (ongoing_pieces s2)\<rparr>,
                           Inr ()))
                else (s2, Inr ()))"

subsection \<open>The inventory of pieces\<close>

text \<open>
  The piece indices of the three lists, and the invariant: every index below
  \<^verbatim>\<open>total_pieces\<close> occurs exactly once in the three lists together, and their
  lengths add up to \<^verbatim>\<open>total_pieces\<close>.
\<close>

definition all_indices :: "PieceManager \<Rightarrow> int list" where
  "all_indices s = map index (missing_pieces s @ ongoing_pieces s @ have_pieces s)"

definition piece_inv :: "PieceManager \<Rightarrow> bool" where
  "piece_inv s =
     (list_all (\<lambda>i. count_list (all_indices s) (int i) = 1) [0..<total_pieces s]
      \<and> length (missing_pieces s) + length (ongoing_pieces s) + length (have_pieces s)
          = total_pieces s)"

subsection \<open>The peer wire protocol (\<^verbatim>\<open>communication.py\<close>)\<close>

text \<open>
  A typed message of the wire. \<^verbatim>\<open>stall\<close> and \<^verbatim>\<open>Unstall\<close> are the source's names
  of Choke and Unchoke; \<open>Piece_message\<close> is the class \<^verbatim>\<open>Piece\<close> of
  \<^verbatim>\<open>communication.py\<close>. A \<^verbatim>\<open>BitField\<close> holds a bit array.
\<close>

datatype PeerMessage =
    KeepAlive | stall | Unstall | Interested | NotInterested
  | Have int
  | BitField "bool list"
  | Request int int int
  | Piece_message int int bytes
  | Cancel int int int

text \<open>
  \<^verbatim>\<open>struct\<close> with the formats of the sources. \<open>be32\<close> is the four bytes of a
  \<^verbatim>\<open>>I\<close> field; \<^verbatim>\<open>struct.pack\<close> raises \<^verbatim>\<open>struct.error\<close> on a value outside
  \<open>0 .. 2^32 - 1\<close>, \<^verbatim>\<open>struct.unpack\<close> on a buffer whose length is not the size
  of the format.
\<close>

definition u32 :: "int \<Rightarrow> bool" where
  "u32 n = (0 \<le> n \<and> n < 2 ^ 32)"

definition be32 :: "int \<Rightarrow> bytes" where
  "be32 n = [word_of_int (n div 2 ^ 24), word_of_int (n div 2 ^ 16),
             word_of_int (n div 2 ^ 8), word_of_int n]"

definition unpack_u32 :: "bytes \<Rightarrow> int" where
  "unpack_u32 bs = foldl (\<lambda>a b. a * 256 + uint b) 0 bs"

text \<open>\<^verbatim>\<open>struct.pack('>Ib' + 'I' * k, length, id, *fields)\<close> with a constant id.\<close>

definition pack_frame :: "int \<Rightarrow> byte \<Rightarrow> int list \<Rightarrow> py_error + bytes" where
  "pack_frame len ident vals =
     (if u32 len \<and> list_all u32 vals
      then Inr (be32 len @ [ident] @ concat (map be32 vals))
      else Inl StructError)"

text \<open>
  \<^verbatim>\<open>bitstring.BitArray(bytes=data)\<close>: the bits of the bytes, the most
  significant bit of each byte first.
\<close>

definition bits_of_bytes :: "bytes \<Rightarrow> bool list" where
  "bits_of_bytes bs = concat (map (\<lambda>w. map (bit w) [7, 6, 5, 4, 3, 2, 1, 0]) bs)"

text \<open>
  The method \<^verbatim>\<open>encode\<close> of each class. \<^verbatim>\<open>KeepAlive\<close>, \<^verbatim>\<open>stall\<close>,
  \<^verbatim>\<open>Unstall\<close> and \<^verbatim>\<open>NotInterested\<close> define none, nor does their base class
  \<^verbatim>\<open>PeerMessage\<close>. \<^verbatim>\<open>BitField.encode\<close> hands the bit array itself to the
  \<^verbatim>\<open>s\<close> field of \<^verbatim>\<open>struct.pack\<close>, which takes a \<^verbatim>\<open>bytes\<close> object only and
  raises \<^verbatim>\<open>struct.error\<close>.
\<close>

fun encode :: "PeerMessage \<Rightarrow> py_error + bytes" where
  "encode Interested = pack_frame 1 2 []"
| "encode (Have i) = pack_frame 5 4 [i]"
| "encode (Request i bgn len) = pack_frame 13 6 [i, bgn, len]"
| "encode (Piece_message i bgn blk) =
     (case pack_frame (9 + int (length blk)) 7 [i, bgn] of
        Inl e \<Rightarrow> Inl e
      | Inr bs \<Rightarrow> Inr (bs @ blk))"
| "encode (Cancel i bgn len) = pack_frame 13 8 [i, bgn, len]"
| "encode (BitField bits) = Inl StructError"
| "encode KeepAlive = Inl AttributeError"
| "encode stall = Inl AttributeError"
| "encode Unstall = Inl AttributeError"
| "encode NotInterested = Inl AttributeError"

text \<open>
  The class methods \<^verbatim>\<open>decode\<close>. \<^verbatim>\<open>Have\<close>, \<^verbatim>\<open>Request\<close> and \<^verbatim>\<open>Cancel\<close> unpack
  a buffer of exactly 9, 17 and 17 bytes. \<^verbatim>\<open>Piece.decode\<close> and
  \<^verbatim>\<open>BitField.decode\<close> read the length prefix first and build the format from
  it: a negative repeat count is no format, and the buffer must have the
  format's size.
\<close>

definition Have_decode :: "bytes \<Rightarrow> py_error + PeerMessage" where
  "Have_decode d =
     (if length d = 9 then Inr (Have (unpack_u32 (take 4 (drop 5 d)))) else Inl StructError)"

definition Request_decode :: "bytes \<Rightarrow> py_error + PeerMessage" where
  "Request_decode d =
     (if length d = 17
      then Inr (Request (unpack_u32 (take 4 (drop 5 d))) (unpack_u32 (take 4 (drop 9 d)))
                  (unpack_u32 (take 4 (drop 13 d))))
      else Inl StructError)"

definition Cancel_decode :: "bytes \<Rightarrow> py_error + PeerMessage" where
  "Cancel_decode d =
     (if length d = 17
      then Inr (Cancel (unpack_u32 (take 4 (drop 5 d))) (unpack_u32 (take 4 (drop 9 d)))
                  (unpack_u32 (take 4 (drop 13 d))))
      else Inl StructError)"

definition Piece_decode :: "bytes \<Rightarrow> py_error + PeerMessage" where
  "Piece_decode d =
     (if length (take 4 d) \<noteq> 4 then Inl StructError
      else
        let len = unpack_u32 (take 4 d); d' = take (nat (len + 4)) d
        in if len - 9 < 0 \<or> int (length d') \<noteq> len + 4 then Inl StructError
           else Inr (Piece_message (unpack_u32 (take 4 (drop 5 d')))
                       (unpack_u32 (take 4 (drop 9 d'))) (drop 13 d')))"

definition BitField_decode :: "bytes \<Rightarrow> py_error + PeerMessage" where
  "BitField_decode d =
     (if length (take 4 d) \<noteq> 4 then Inl StructError
      else
        let message_length = unpack_u32 (take 4 d)
        in if message_length - 1 < 0 \<or> int (length d) \<noteq> message_length + 4
           then Inl StructError
           else Inr (BitField (bits_of_bytes (drop 5 d))))"

text \<open>
  \<^verbatim>\<open>PeerStreamIterator.parse\<close> on the buffer: the result (an exception, a
  message or \<open>None\<close>) and the buffer the call leaves. \<open>dispatch\<close> is the
  \<^verbatim>\<open>if\<close>/\<^verbatim>\<open>elif\<close> chain on the message id, in the order of the source
  (\<^verbatim>\<open>is\<close> on small integers is \<^verbatim>\<open>==\<close>); \<open>d\<close> is \<^verbatim>\<open>_data()\<close> and \<open>consumed\<close>
  the buffer after \<^verbatim>\<open>_consume()\<close>, which runs before the class method decodes,
  so a raising decode leaves the shortened buffer. The message id is a signed
  byte.
\<close>

definition dispatch ::
  "int \<Rightarrow> bytes \<Rightarrow> bytes \<Rightarrow> bytes \<Rightarrow> (py_error + PeerMessage option) \<times> bytes" where
  "dispatch message_id d consumed buffer =
     (if message_id = 5 then (map_sum id Some (BitField_decode d), consumed)
      else if message_id = 2 then (Inr (Some Interested), consumed)
      else if message_id = 3 then (Inr (Some NotInterested), consumed)
      else if message_id = 0 then (Inr (Some stall), consumed)
      else if message_id = 1 then (Inr (Some Unstall), consumed)
      else if message_id = 4 then (map_sum id Some (Have_decode d), consumed)
      else if message_id = 7 then (map_sum id Some (Piece_decode d), consumed)
      else if message_id = 6 then (map_sum id Some (Request_decode d), consumed)
      else if message_id = 8 then (map_sum id Some (Cancel_decode d), consumed)
      else (Inr None, buffer))"

definition parse :: "bytes \<Rightarrow> (py_error + PeerMessage option) \<times> bytes" where
  "parse buffer =
     (if length buffer > 4 then
        let message_length = unpack_u32 (take 4 buffer) in
        if message_length = 0 then (Inr (Some KeepAlive), buffer)
        else if int (length buffer) \<ge> message_length then
          dispatch (sint (buffer ! 4))
            (take (nat (4 + message_length)) buffer)
            (drop (nat (4 + message_length)) buffer) buffer
        else (Inr None, buffer)
      else (Inr None, buffer))"

text \<open>A message is encoded and the frame is given to \<^verbatim>\<open>parse\<close> as the whole buffer.\<close>

definition decode_encoded :: "PeerMessage \<Rightarrow> py_error + PeerMessage option" where
  "decode_encoded m = (case encode m of Inl e \<Rightarrow> Inl e | Inr frame \<Rightarrow> fst (parse frame))"

text \<open>
  The messages that have an encoder and whose fields fit the frame: the
  integer fields are unsigned 32-bit values, and so is the length prefix of a
  \<^verbatim>\<open>Piece\<close>.
\<close>

fun encodable :: "PeerMessage \<Rightarrow> bool" where
  "encodable Interested = True"
| "encodable (Have i) = u32 i"
| "encodable (Request i bgn len) = (u32 i \<and> u32 bgn \<and> u32 len)"
| "encodable (Piece_message i bgn blk) = (u32 i \<and> u32 bgn \<and> u32 (9 + int (length blk)))"
| "encodable (Cancel i bgn len) = (u32 i \<and> u32 bgn \<and> u32 len)"
| "encodable (BitField bits) = False"
| "encodable KeepAlive = False"
| "encodable stall = False"
| "encodable Unstall = False"
| "encodable NotInterested = False"

subsection \<open>The peer session (\<^verbatim>\<open>PeerConnection\<close>)\<close>

text \<open>
  The flags \<^verbatim>\<open>my_state\<close> and \<^verbatim>\<open>peer_state\<close> are lists of strings, as in the
  source. \<open>writer\<close> is the sequence of frames written to the stream, \<open>closed\<close>
  tells that \<^verbatim>\<open>cancel()\<close> has closed it.
\<close>

record PeerConnection =
  my_state :: "string list"
  peer_state :: "string list"
  remote_id :: bytes
  writer :: "bytes list"
  closed :: bool

text \<open>
  The callback \<^verbatim>\<open>on_block_cb\<close> is a parameter of the connection; it acts on
  the piece manager (the client passes \<^verbatim>\<open>_on_block_retrieved\<close>, which calls
  \<^verbatim>\<open>block_received\<close>).
\<close>

type_synonym block_cb =
  "PieceManager \<Rightarrow> bytes \<Rightarrow> int \<Rightarrow> int \<Rightarrow> bytes \<Rightarrow> PieceManager \<times> (py_error + unit)"

text \<open>
  The \<^verbatim>\<open>if\<close>/\<^verbatim>\<open>elif\<close> chain of \<^verbatim>\<open>_start\<close> on one message.
  \<^verbatim>\<open>list.remove\<close> raises \<^verbatim>\<open>ValueError\<close> when the element is absent.
\<close>

definition handle_message ::
  "block_cb \<Rightarrow> PeerConnection \<Rightarrow> PieceManager \<Rightarrow> PeerMessage
     \<Rightarrow> (PeerConnection \<times> PieceManager) \<times> (py_error + unit)" where
  "handle_message on_block_cb c m msg =
     (case msg of
        BitField bits \<Rightarrow> ((c, add_peer m (remote_id c) bits), Inr ())
      | Interested \<Rightarrow> ((c\<lparr>peer_state := peer_state c @ [''interested'']\<rparr>, m), Inr ())
      | NotInterested \<Rightarrow>
          (if ''interested'' \<in> set (peer_state c)
           then ((c\<lparr>peer_state := remove1 ''interested'' (peer_state c)\<rparr>, m), Inr ())
           else ((c, m), Inr ()))
      | stall \<Rightarrow> ((c\<lparr>my_state := my_state c @ [''stalled'']\<rparr>, m), Inr ())
      | Unstall \<Rightarrow>
          (if ''stalled'' \<in> set (my_state c)
           then ((c\<lparr>my_state := remove1 ''stalled'' (my_state c)\<rparr>, m), Inr ())
           else ((c, m), Inr ()))
      | Have i \<Rightarrow> (case update_peer m (remote_id c) i of (m', r) \<Rightarrow> ((c, m'), r))
      | KeepAlive \<Rightarrow> ((c, m), Inr ())
      | Piece_message i bgn blk \<Rightarrow>
          (if ''pending_request'' \<notin> set (my_state c) then ((c, m), Inl ValueError)
           else
             let c' = c\<lparr>my_state := remove1 ''pending_request'' (my_state c)\<rparr>
             in (case on_block_cb m (remote_id c) i bgn blk of (m', r) \<Rightarrow> ((c', m'), r)))
      | Request i bgn len \<Rightarrow> ((c, m), Inr ())
      | Cancel i bgn len \<Rightarrow> ((c, m), Inr ()))"

text \<open>\<^verbatim>\<open>_request_piece\<close>: a \<^verbatim>\<open>Request\<close> is written only for a block.\<close>

definition request_piece ::
  "PeerConnection \<Rightarrow> PieceManager \<Rightarrow> int
     \<Rightarrow> (PeerConnection \<times> PieceManager) \<times> (py_error + unit)" where
  "request_piece c m now =
     (case next_request m (remote_id c) now of
        (m', Inl e) \<Rightarrow> ((c, m'), Inl e)
      | (m', Inr None) \<Rightarrow> ((c, m'), Inr ())
      | (m', Inr (Some b)) \<Rightarrow>
          (case encode (Request (piece b) (offset b) (block_length b)) of
             Inl e \<Rightarrow> ((c, m'), Inl e)
           | Inr message \<Rightarrow> ((c\<lparr>writer := writer c @ [message]\<rparr>, m'), Inr ())))"

text \<open>
  The request step, the three nested \<^verbatim>\<open>if\<close>s that end the loop body: the flag
  \<^verbatim>\<open>pending_request\<close> is appended, then \<^verbatim>\<open>_request_piece\<close> runs.
\<close>

definition request_step ::
  "PeerConnection \<Rightarrow> PieceManager \<Rightarrow> int
     \<Rightarrow> (PeerConnection \<times> PieceManager) \<times> (py_error + unit)" where
  "request_step c m now =
     (if ''stalled'' \<notin> set (my_state c) \<and> ''interested'' \<in> set (my_state c)
         \<and> ''pending_request'' \<notin> set (my_state c)
      then request_piece (c\<lparr>my_state := my_state c @ [''pending_request'']\<rparr>) m now
      else ((c, m), Inr ()))"

text \<open>
  One turn of the loop \<^verbatim>\<open>async for message in ...\<close>: \<open>Inr False\<close> is the
  \<^verbatim>\<open>break\<close> of a stopped session, \<open>Inr True\<close> the end of the body.
\<close>

definition loop_body ::
  "block_cb \<Rightarrow> PeerConnection \<Rightarrow> PieceManager \<Rightarrow> PeerMessage \<Rightarrow> int
     \<Rightarrow> (PeerConnection \<times> PieceManager) \<times> (py_error + bool)" where
  "loop_body on_block_cb c m msg now =
     (if ''stopped'' \<in> set (my_state c) then ((c, m), Inr False)
      else
        (case handle_message on_block_cb c m msg of
           (cm, Inl e) \<Rightarrow> (cm, Inl e)
         | ((c', m'), Inr u) \<Rightarrow>
             (case request_step c' m' now of
                (cm, Inl e) \<Rightarrow> (cm, Inl e)
              | (cm, Inr u) \<Rightarrow> (cm, Inr True))))"

text \<open>\<^verbatim>\<open>cancel\<close>: the writer is closed.\<close>

definition cancel :: "PeerConnection \<Rightarrow> PeerConnection" where
  "cancel c = c\<lparr>closed := True\<rparr>"

text \<open>
  The turn inside the \<^verbatim>\<open>try\<close> of \<^verbatim>\<open>_start\<close>. None of the exceptions of the
  model is a \<^verbatim>\<open>ProtocolError\<close> or a connection error, so a raising turn
  reaches \<^verbatim>\<open>except Exception\<close>: the session is cancelled and the exception
  raised again. After a \<^verbatim>\<open>break\<close> the session is cancelled as well. The result
  tells whether the session goes on to the next message.
\<close>

definition session_turn ::
  "block_cb \<Rightarrow> PeerConnection \<Rightarrow> PieceManager \<Rightarrow> PeerMessage \<Rightarrow> int
     \<Rightarrow> (PeerConnection \<times> PieceManager) \<times> (py_error + bool)" where
  "session_turn on_block_cb c m msg now =
     (case loop_body on_block_cb c m msg now of
        ((c', m'), Inl e) \<Rightarrow> ((cancel c', m'), Inl e)
      | ((c', m'), Inr False) \<Rightarrow> ((cancel c', m'), Inr False)
      | ((c', m'), Inr True) \<Rightarrow> ((c', m'), Inr True))"

text \<open>
  Two states for examples: a piece manager before any peer has sent its
  bitfield, and a session after the handshake that has been unchoked.
\<close>

definition fresh_manager :: PieceManager where
  "fresh_manager =
     \<lparr>torrent = \<lparr>pieces = [], piece_length = 16384, total_size = 0\<rparr>, peers = [],
      pending_blocks = [], missing_pieces = [], ongoing_pieces = [], have_pieces = [],
      max_pending_time = 300 * 1000, total_pieces = 0, written = []\<rparr>"

definition unstalled_session :: PeerConnection where
  "unstalled_session =
     \<lparr>my_state = [''interested''], peer_state = [], remote_id = [1, 2, 3], writer = [],
      closed = False\<rparr>"

subsection \<open>Bencoding (\<^verbatim>\<open>bencode.py\<close>)\<close>

text \<open>
  The Python values the codec handles: \<open>None\<close>, integers, \<^verbatim>\<open>bytes\<close>,
  \<^verbatim>\<open>bytearray\<close>, lists and (ordered) dictionaries.
\<close>

datatype pyobj =
    PyNone
  | PyInt int
  | PyBytes string
  | PyByteArray string
  | PyList "pyobj list"
  | PyDict "(pyobj \<times> pyobj) list"

definition TOKEN_LIST :: string where "TOKEN_LIST = ''1''"
definition TOKEN_INTEGER :: string where "TOKEN_INTEGER = ''i''"
definition TOKEN_DICT :: string where "TOKEN_DICT = ''d''"
definition TOKEN_END :: string where "TOKEN_END = ''e''"
definition TOKEN_STRING_SEPERATOR :: string where "TOKEN_STRING_SEPERATOR = '':''"

text \<open>\<^verbatim>\<open>str(n)\<close> of an integer: its decimal digits, with a sign when negative.\<close>

fun str_nat :: "nat \<Rightarrow> string" where
  "str_nat n =
     (if n < 10 then [''0123456789'' ! n]
      else str_nat (n div 10) @ [''0123456789'' ! (n mod 10)])"

declare str_nat.simps [simp del]

definition str_int :: "int \<Rightarrow> string" where
  "str_int n = (if n < 0 then CHR ''-'' # str_nat (nat (- n)) else str_nat (nat n))"

text \<open>
  The encoder. \<^verbatim>\<open>_encode_int\<close> returns \<^verbatim>\<open>bytes\<close>, \<^verbatim>\<open>_encode_bytes\<close> and
  \<^verbatim>\<open>_encode_dict\<close> a \<^verbatim>\<open>bytearray\<close>. \<^verbatim>\<open>_encode_dict\<close> calls
  \<^verbatim>\<open>self._encode_next\<close> for the first item; the class has \<^verbatim>\<open>encode_next\<close>
  only. \<^verbatim>\<open>encode_next\<close> has no branch for a list (nor for \<open>None\<close> or a
  \<^verbatim>\<open>bytearray\<close>) and returns \<open>None\<close> for it. Text strings, which the sources
  never pass, are not among the values.
\<close>

definition Encoder_encode_int :: "int \<Rightarrow> pyobj" where
  "Encoder_encode_int v = PyBytes (''i'' @ str_int v @ ''e'')"

definition Encoder_encode_bytes :: "string \<Rightarrow> pyobj" where
  "Encoder_encode_bytes v = PyByteArray (str_int (int (length v)) @ '':'' @ v)"

definition Encoder_encode_dict :: "(pyobj \<times> pyobj) list \<Rightarrow> py_error + pyobj" where
  "Encoder_encode_dict items =
     (case items of [] \<Rightarrow> Inr (PyByteArray ''de'') | kv # rest \<Rightarrow> Inl AttributeError)"

fun Encoder_encode_next :: "pyobj \<Rightarrow> py_error + pyobj" where
  "Encoder_encode_next (PyInt v) = Inr (Encoder_encode_int v)"
| "Encoder_encode_next (PyDict items) = Encoder_encode_dict items"
| "Encoder_encode_next (PyBytes v) = Inr (Encoder_encode_bytes v)"
| "Encoder_encode_next PyNone = Inr PyNone"
| "Encoder_encode_next (PyByteArray v) = Inr PyNone"
| "Encoder_encode_next (PyList vs) = Inr PyNone"

definition Encoder_encode :: "pyobj \<Rightarrow> py_error + pyobj" where
  "Encoder_encode x = Encoder_encode_next x"

text \<open>
  Indexing, slicing and searching a \<^verbatim>\<open>bytes\<close> object as Python does: a
  negative position counts from the end, a slice is clipped to the object.
\<close>

definition py_getitem :: "'a list \<Rightarrow> int \<Rightarrow> py_error + 'a" where
  "py_getitem xs i =
     (if 0 \<le> i \<and> i < int (length xs) then Inr (xs ! nat i)
      else if - int (length xs) \<le> i \<and> i < 0 then Inr (xs ! nat (int (length xs) + i))
      else Inl IndexError)"

definition clip :: "nat \<Rightarrow> int \<Rightarrow> nat" where
  "clip n k = (if k < 0 then nat (max 0 (k + int n)) else min (nat k) n)"

definition py_slice :: "'a list \<Rightarrow> int \<Rightarrow> int \<Rightarrow> 'a list" where
  "py_slice xs i j = take (clip (length xs) j - clip (length xs) i) (drop (clip (length xs) i) xs)"

fun index_of :: "'a \<Rightarrow> 'a list \<Rightarrow> nat option" where
  "index_of c [] = None"
| "index_of c (x # xs) = (if x = c then Some 0 else map_option Suc (index_of c xs))"

text \<open>\<^verbatim>\<open>data.index(token, start)\<close> for a token of one byte; \<open>None\<close> is \<^verbatim>\<open>ValueError\<close>.\<close>

definition py_index_from :: "'a list \<Rightarrow> 'a \<Rightarrow> int \<Rightarrow> nat option" where
  "py_index_from xs c start =
     map_option (\<lambda>k. k + clip (length xs) start) (index_of c (drop (clip (length xs) start) xs))"

text \<open>
  \<^verbatim>\<open>int(b)\<close> of a \<^verbatim>\<open>bytes\<close> object: blanks around, a sign, decimal digits with
  single underscores between them; anything else raises \<^verbatim>\<open>ValueError\<close>.
\<close>

definition is_space :: "char \<Rightarrow> bool" where
  "is_space c = (c \<in> set [CHR '' '', CHR 0x09, CHR 0x0A, CHR 0x0B, CHR 0x0C, CHR 0x0D])"

definition is_digit :: "char \<Rightarrow> bool" where
  "is_digit c = (c \<in> set ''0123456789'')"

fun int_digits :: "string \<Rightarrow> nat \<Rightarrow> bool \<Rightarrow> nat option" where
  "int_digits [] acc prev = (if prev then Some acc else None)"
| "int_digits (c # cs) acc prev =
     (if is_digit c then int_digits cs (acc * 10 + (of_char c - 48)) True
      else if c = CHR ''_'' \<and> prev then
        (case cs of [] \<Rightarrow> None | c' # cs' \<Rightarrow> if is_digit c' then int_digits cs acc False else None)
      else None)"

definition py_int :: "string \<Rightarrow> py_error + int" where
  "py_int s =
     (let t = rev (dropWhile is_space (rev (dropWhile is_space s)));
          neg = (t \<noteq> [] \<and> hd t = CHR ''-'');
          body = (if t \<noteq> [] \<and> (hd t = CHR ''-'' \<or> hd t = CHR ''+'') then tl t else t)
      in case int_digits body 0 False of
           None \<Rightarrow> Inl ValueError
         | Some v \<Rightarrow> Inr (if neg then - int v else int v))"

text \<open>The decoder: the data and the position \<^verbatim>\<open>_index\<close>.\<close>

record Decoder =
  dec_data :: string
  dec_index :: int

text \<open>\<^verbatim>\<open>Decoder.__init__\<close>: anything but a \<^verbatim>\<open>bytes\<close> object raises \<^verbatim>\<open>TypeError\<close>.\<close>

definition Decoder_init :: "pyobj \<Rightarrow> py_error + Decoder" where
  "Decoder_init x =
     (case x of PyBytes b \<Rightarrow> Inr \<lparr>dec_data = b, dec_index = 0\<rparr> | _ \<Rightarrow> Inl TypeError)"

text \<open>\<^verbatim>\<open>_peek\<close> looks at the byte after the position; the result is its integer value.\<close>

definition Decoder_peek :: "Decoder \<Rightarrow> py_error + char option" where
  "Decoder_peek d =
     (if dec_index d + 1 \<ge> int (length (dec_data d)) then Inr None
      else map_sum id Some (py_getitem (dec_data d) (dec_index d + 1)))"

definition Decoder_consume :: "Decoder \<Rightarrow> Decoder" where
  "Decoder_consume d = d\<lparr>dec_index := dec_index d + 1\<rparr>"

definition Decoder_read :: "Decoder \<Rightarrow> int \<Rightarrow> py_error + (string \<times> Decoder)" where
  "Decoder_read d len =
     (if dec_index d + len > int (length (dec_data d)) then Inl IndexError
      else Inr (py_slice (dec_data d) (dec_index d) (dec_index d + len),
                d\<lparr>dec_index := dec_index d + len\<rparr>))"

text \<open>\<^verbatim>\<open>_read_until\<close>: a token that is not found raises \<^verbatim>\<open>RuntimeError\<close>.\<close>

definition Decoder_read_until :: "Decoder \<Rightarrow> string \<Rightarrow> py_error + (string \<times> Decoder)" where
  "Decoder_read_until d token =
     (case py_index_from (dec_data d) (hd token) (dec_index d) of
        None \<Rightarrow> Inl RuntimeError
      | Some occurence \<Rightarrow>
          Inr (py_slice (dec_data d) (dec_index d) (int occurence),
               d\<lparr>dec_index := int occurence + 1\<rparr>))"

definition Decoder_decode_string :: "Decoder \<Rightarrow> py_error + (pyobj \<times> Decoder)" where
  "Decoder_decode_string d =
     (case Decoder_read_until d TOKEN_STRING_SEPERATOR of
        Inl e \<Rightarrow> Inl e
      | Inr (digits, d1) \<Rightarrow>
          (case py_int digits of
             Inl e \<Rightarrow> Inl e
           | Inr bytes_to_read \<Rightarrow>
               (case Decoder_read d1 bytes_to_read of
                  Inl e \<Rightarrow> Inl e
                | Inr (res, d2) \<Rightarrow> Inr (PyBytes res, d2))))"

text \<open>
  \<^verbatim>\<open>Decoder.decode\<close>. The value \<open>c\<close> of \<^verbatim>\<open>_peek\<close> is an integer and the tokens
  are \<^verbatim>\<open>bytes\<close> objects; in Python 3 an integer never equals a \<^verbatim>\<open>bytes\<close>
  object, so the four comparisons \<^verbatim>\<open>c == TOKEN_...\<close> are false. Their
  branches, which consume one byte (or nothing) and return \<open>None\<close>, are kept
  in the order of the source. \<^verbatim>\<open>c in b'0123456789'\<close> tests the byte value.
\<close>

definition int_eq_bytes :: "char \<Rightarrow> string \<Rightarrow> bool" where
  "int_eq_bytes c token = False"

definition Decoder_decode :: "Decoder \<Rightarrow> py_error + (pyobj \<times> Decoder)" where
  "Decoder_decode d =
     (case Decoder_peek d of
        Inl e \<Rightarrow> Inl e
      | Inr None \<Rightarrow> Inl EOFError
      | Inr (Some c) \<Rightarrow>
          if int_eq_bytes c TOKEN_INTEGER then Inr (PyNone, Decoder_consume d)
          else if int_eq_bytes c TOKEN_LIST then Inr (PyNone, Decoder_consume d)
          else if int_eq_bytes c TOKEN_DICT then Inr (PyNone, Decoder_consume d)
          else if int_eq_bytes c TOKEN_END then Inr (PyNone, d)
          else if c \<in> set ''0123456789'' then Decoder_decode_string d
          else Inl RuntimeError)"

text \<open>\<^verbatim>\<open>Decoder(data).decode()\<close> and \<^verbatim>\<open>Decoder(Encoder(x).encode()).decode()\<close>.\<close>

definition decode_data :: "pyobj \<Rightarrow> py_error + pyobj" where
  "decode_data b =
     (case Decoder_init b of
        Inl e \<Rightarrow> Inl e
      | Inr d \<Rightarrow> map_sum id fst (Decoder_decode d))"

definition decode_encode :: "pyobj \<Rightarrow> py_error + pyobj" where
  "decode_encode x =
     (case Encoder_encode x of Inl e \<Rightarrow> Inl e | Inr b \<Rightarrow> decode_data b)"

subsection \<open>The tracker (\<^verbatim>\<open>tracker.py\<close>)\<close>

text \<open>
  The answer of the HTTP request of \<^verbatim>\<open>Tracker.connect\<close> is an input: its
  status and its body. A \<^verbatim>\<open>TrackerResponse\<close> wraps the decoded body.
  \<^verbatim>\<open>connect\<close> calls \<^verbatim>\<open>self.raise_for_error(data)\<close>; the class \<^verbatim>\<open>Tracker\<close>
  defines \<^verbatim>\<open>__init__\<close>, \<^verbatim>\<open>connect\<close>, \<^verbatim>\<open>close\<close> and
  \<^verbatim>\<open>_construct_tracker_parameters\<close> and no such method. The property
  \<^verbatim>\<open>TrackerResponse.failure\<close> is not read by \<^verbatim>\<open>connect\<close>.
\<close>

record HttpResponse =
  http_status :: int
  http_body :: string

definition Tracker_raise_for_error :: "string \<Rightarrow> py_error + unit" where
  "Tracker_raise_for_error d = Inl AttributeError"

definition Tracker_connect :: "HttpResponse \<Rightarrow> py_error + pyobj" where
  "Tracker_connect response =
     (if \<not> (http_status response = 200) then Inl ConnectionError
      else
        (case Tracker_raise_for_error (http_body response) of
           Inl e \<Rightarrow> Inl e
         | Inr u \<Rightarrow> decode_data (PyBytes (http_body response))))"

section \<open>Block layout of the pieces\<close>

lemma ceil_div_pos:
  "0 < b \<Longrightarrow> ceil_div a b = (if a mod b = 0 then a div b else a div b + 1)"
  by (simp add: ceil_div_def zdiv_zminus1_eq_if)

lemma request_blocks_nat:
  "request_blocks idx (int n) =
     map (\<lambda>k. new_Block idx (int k * REQUEST_SIZE) REQUEST_SIZE) [0..<n]"
  by (simp add: request_blocks_def py_range_def comp_def)

lemma request_blocks_sum:
  "sum_list (map block_length (request_blocks idx (int n))) = int n * REQUEST_SIZE"
  unfolding request_blocks_nat
  by (induction n) (simp_all add: new_Block_def algebra_simps)

lemma request_blocks_length: "length (request_blocks idx n) = nat n"
  by (simp add: request_blocks_def py_range_def)

text \<open>
  The final piece whose remainder is positive: its blocks add up to the
  remainder \<open>total_size mod piece_length\<close>.
\<close>

lemma last_piece_blocks_remainder:
  assumes "piece_length t > 0" and "total_size t mod piece_length t > 0"
  shows "\<exists>bs. last_piece_blocks t idx = Inr bs \<and>
           sum_list (map block_length bs) = total_size t mod piece_length t"
proof -
  define L where "L = total_size t mod piece_length t"
  define R where "R = REQUEST_SIZE"
  have Rpos: "R > 0" by (simp add: R_def REQUEST_SIZE_def)
  have Lpos: "L > 0" using assms by (simp add: L_def)
  show ?thesis
  proof (cases "L mod R > 0")
    case False
    moreover have "0 \<le> L mod R" using Rpos by (rule pos_mod_sign)
    ultimately have m0: "L mod R = 0" by linarith
    define n where "n = nat (L div R)"
    have "L div R \<ge> 0" using Lpos Rpos by (simp add: pos_imp_zdiv_nonneg_iff)
    then have n: "ceil_div L R = int n" using Rpos m0 by (simp add: ceil_div_pos n_def)
    have "int n = L div R" using \<open>L div R \<ge> 0\<close> by (simp add: n_def)
    then have "int n * R = L" using m0 div_mult_mod_eq [of L R] by simp
    then show ?thesis
      using assms False n request_blocks_sum [of idx n]
      by (simp add: last_piece_blocks_def Let_def L_def [symmetric] R_def [symmetric])
  next
    case True
    define m where "m = nat (L div R)"
    have "L div R \<ge> 0" using Lpos Rpos by (simp add: pos_imp_zdiv_nonneg_iff)
    then have m: "int m = L div R" by (simp add: m_def)
    have n: "ceil_div L R = int (Suc m)" using Rpos True m by (simp add: ceil_div_pos)
    let ?bs = "request_blocks idx (int (Suc m))"
    have split: "?bs = request_blocks idx (int m) @ [new_Block idx (int m * R) R]"
      unfolding request_blocks_nat by (simp add: R_def)
    have ne: "?bs \<noteq> []" using split by simp
    have upd: "?bs[length ?bs - 1 := (last ?bs)\<lparr>block_length := L mod R\<rparr>]
                 = request_blocks idx (int m) @ [(new_Block idx (int m * R) R)\<lparr>block_length := L mod R\<rparr>]"
      unfolding split by (simp add: request_blocks_length list_update_append)
    have total: "int m * R + L mod R = L"
      using m by (simp add: mult.commute)
    have "sum_list (map block_length
            (request_blocks idx (int m) @ [(new_Block idx (int m * R) R)\<lparr>block_length := L mod R\<rparr>]))
          = L"
      using total request_blocks_sum [of idx m] by (simp add: R_def)
    then show ?thesis
      using assms True ne upd
      by (simp add: last_piece_blocks_def Let_def L_def [symmetric] R_def [symmetric] n
          del: of_nat_Suc)
  qed
qed

text \<open>
  The final piece of a torrent whose size is a multiple of the piece length:
  the remainder is \<open>0\<close>, so the piece is built from \<open>ceil_div 0 REQUEST_SIZE = 0\<close>
  blocks.
\<close>

lemma last_piece_blocks_multiple:
  assumes "piece_length t > 0" and "total_size t mod piece_length t = 0"
  shows "last_piece_blocks t idx = Inr []"
  using assms
  by (simp add: last_piece_blocks_def ceil_div_def request_blocks_def py_range_def)

text \<open>
  C2. A torrent of two pieces of 16384 bytes and 32768 bytes in all: the size
  is a multiple of the piece length, and \<^verbatim>\<open>_initiate_pieces\<close> gives the final
  piece no block at all (its blocks add up to 0, not to the piece length
  16384), while the first piece has its one block of 16384 bytes.
\<close>

theorem initiate_pieces_multiple_final_empty:
  "map_sum id (map (\<lambda>p. (index p, map block_length (blocks p), blocks_size p)))
     (initiate_pieces \<lparr>pieces = [h0, h1], piece_length = 16384, total_size = 32768\<rparr>)
   = Inr [(0, [16384], 16384), (1, [], 0)]"
  by (simp add: initiate_pieces_def last_piece_blocks_def ceil_div_def request_blocks_def
      py_range_def new_Block_def REQUEST_SIZE_def blocks_size_def)

section \<open>Requests of the piece manager\<close>

lemmas manager_simps =
  new_PieceManager_def initiate_pieces_def last_piece_blocks_def ceil_div_def
  request_blocks_def py_range_def new_Block_def REQUEST_SIZE_def add_peer_def
  next_request_def expired_requests_def next_ongoing_def get_rarest_piece_def
  peer_has_def bit_get_def py_min_by_def Piece_next_request_def
  namedtuple_setattr_added_def Let_def numeral_2_eq_2

subsection \<open>A peer that holds no piece\<close>

lemma bit_get_mem:
  assumes "bit_get bits i = Inr b"
  shows "b \<in> set bits"
proof -
  define j where "j = (if i < 0 then int (length bits) + i else i)"
  from assms have "0 \<le> j \<and> j < int (length bits) \<and> b = bits ! nat j"
    by (simp add: bit_get_def Let_def j_def split: if_splits)
  then have "nat j < length bits" and "b = bits ! nat j" by auto
  then show ?thesis by simp
qed

lemma peer_has_zero:
  assumes "map_of (peers s) peer_id = Some bits" and "list_all Not bits"
  shows "peer_has s peer_id i = Inr False \<or> peer_has s peer_id i = Inl IndexError"
proof (cases "bit_get bits i")
  case (Inl e)
  then show ?thesis using assms(1)
    by (auto simp: peer_has_def bit_get_def Let_def split: if_splits)
next
  case (Inr b)
  then have "b \<in> set bits" by (rule bit_get_mem)
  then have "\<not> b" using assms(2) by (auto simp: list_all_iff)
  then show ?thesis using Inr assms(1) by (simp add: peer_has_def)
qed

lemma expired_scan_zero:
  assumes "map_of (peers s) peer_id = Some bits" and "list_all Not bits"
  shows "expired_scan s peer_id now rs = Inr None \<or> expired_scan s peer_id now rs = Inl IndexError"
proof (induction rs)
  case Nil
  show ?case by simp
next
  case (Cons r rs)
  from peer_has_zero [OF assms, of "piece (block r)"] Cons show ?case by auto
qed

lemma ongoing_scan_zero:
  assumes "map_of (peers s) peer_id = Some bits" and "list_all Not bits"
  shows "ongoing_scan s peer_id ps = Inr (ps, None) \<or> ongoing_scan s peer_id ps = Inl IndexError"
proof (induction ps)
  case Nil
  show ?case by simp
next
  case (Cons p ps)
  from peer_has_zero [OF assms, of "index p"] Cons show ?case by auto
qed

lemma piece_counts_zero:
  assumes "map_of (peers s) peer_id = Some bits" and "list_all Not bits"
  shows "piece_counts s peer_id ps = Inr [] \<or> piece_counts s peer_id ps = Inl IndexError"
proof (induction ps)
  case Nil
  show ?case by simp
next
  case (Cons p ps)
  from peer_has_zero [OF assms, of "index p"] Cons show ?case by auto
qed

text \<open>
  For a registered peer whose bitfield has no bit set, \<^verbatim>\<open>next_request\<close>
  raises whatever the state is: no pending request and no ongoing piece
  qualifies, \<^verbatim>\<open>piece_count\<close> stays empty and \<^verbatim>\<open>min\<close> of it raises
  \<^verbatim>\<open>ValueError\<close> (or a bitfield shorter than a piece index raised
  \<^verbatim>\<open>IndexError\<close> before).
\<close>

lemma next_request_zero_bitfield_raises:
  assumes "map_of (peers s) peer_id = Some bits" and "list_all Not bits"
  shows "next_request s peer_id now = (s, Inl ValueError)
       \<or> next_request s peer_id now = (s, Inl IndexError)"
proof -
  note z = expired_scan_zero [OF assms, of now "pending_blocks s"]
    ongoing_scan_zero [OF assms, of "ongoing_pieces s"]
    piece_counts_zero [OF assms, of "missing_pieces s"]
  have same: "s\<lparr>ongoing_pieces := ongoing_pieces s\<rparr> = s" by simp
  from z show ?thesis using assms(1)
    by (auto simp: next_request_def expired_requests_def next_ongoing_def same
        get_rarest_piece_def py_min_by_def)
qed

text \<open>
  C7. A torrent of two pieces (piece length 16384, 20000 bytes in all), a
  freshly built piece manager, a peer registered with the all-zero bitfield:
  \<^verbatim>\<open>next_request\<close> for that peer raises \<^verbatim>\<open>ValueError\<close>; it does not return
  \<open>None\<close>.
\<close>

theorem next_request_zero_bitfield_ValueError:
  "(case new_PieceManager \<lparr>pieces = [h0, h1], piece_length = 16384, total_size = 20000\<rparr> of
      Inl e \<Rightarrow> False
    | Inr s \<Rightarrow> snd (next_request (add_peer s peer_id [False, False]) peer_id now)
               = Inl ValueError)"
  by (simp add: manager_simps)

subsection \<open>Pending requests past their time\<close>

text \<open>
  The scan of the pending requests never returns a block: where a request is
  past its time and the peer has the piece, the assignment to the field of
  the \<^verbatim>\<open>namedtuple\<close> raises.
\<close>

lemma expired_scan_no_block: "expired_scan s peer_id now rs \<noteq> Inr (Some b)"
  by (induction rs)
     (auto simp: namedtuple_setattr_added_def split: sum.splits)

lemma next_request_expired_raises:
  assumes "map_of (peers s) peer_id = Some bits"
    and "pending_blocks s = r # rs"
    and "bit_get bits (piece (block r)) = Inr True"
    and "added r + max_pending_time s < now"
  shows "next_request s peer_id now = (s, Inl AttributeError)"
  using assms
  by (simp add: next_request_def expired_requests_def peer_has_def
      namedtuple_setattr_added_def)

text \<open>
  C4. A torrent of two pieces (piece length 32768, 40000 bytes in all) and a
  peer that has both pieces. Two calls of \<^verbatim>\<open>next_request\<close> at time 0 leave one
  pending request, for the block at offset 16384 of piece 0, issued at 0 and
  Pending. The call at time 300001, when that request is older than
  \<^verbatim>\<open>max_pending_time\<close>, raises \<^verbatim>\<open>AttributeError\<close>: no block is returned and no
  time stamp is renewed.
\<close>

theorem next_request_expired_AttributeError:
  "(case new_PieceManager \<lparr>pieces = [h0, h1], piece_length = 32768, total_size = 40000\<rparr> of
      Inl e \<Rightarrow> False
    | Inr s0 \<Rightarrow>
        (let s1 = add_peer s0 peer_id [True, True];
             s2 = fst (next_request s1 peer_id 0);
             s3 = fst (next_request s2 peer_id 0)
         in map (\<lambda>r. (piece (block r), offset (block r), status (block r), added r))
              (pending_blocks s3) = [(0, 16384, Pending, 0)]
            \<and> snd (next_request s3 peer_id 300001) = Inl AttributeError))"
  by (simp add: manager_simps)

section \<open>The inventory invariant\<close>

lemma piece_inv_mset:
  "piece_inv s =
     ((\<forall>i < total_pieces s. count (mset (all_indices s)) (int i) = 1)
      \<and> size (mset (all_indices s)) = total_pieces s)"
proof -
  have "length (missing_pieces s) + length (ongoing_pieces s) + length (have_pieces s)
        = length (all_indices s)"
    by (simp add: all_indices_def)
  then show ?thesis
    unfolding piece_inv_def list_all_iff by (auto simp: count_mset)
qed

lemma piece_inv_cong:
  assumes "mset (all_indices s') = mset (all_indices s)"
    and "total_pieces s' = total_pieces s"
  shows "piece_inv s' = piece_inv s"
  using assms by (simp add: piece_inv_mset)

lemma Piece_next_request_index:
  "Piece_next_request p = (p', r) \<Longrightarrow> index p' = index p"
  by (auto simp: Piece_next_request_def split: prod.splits)

lemma ongoing_scan_index:
  "ongoing_scan s peer_id ps = Inr (ps', r) \<Longrightarrow> map index ps' = map index ps"
proof (induction ps arbitrary: ps' r)
  case Nil
  then show ?case by simp
next
  case (Cons p ps)
  then show ?case
    by (auto split: sum.splits if_splits prod.splits option.splits
        dest: Piece_next_request_index)
qed

lemma next_ongoing_indices:
  assumes "next_ongoing s peer_id now = Inr (s1, r)"
  shows "all_indices s1 = all_indices s \<and> total_pieces s1 = total_pieces s"
  using assms ongoing_scan_index [of s peer_id "ongoing_pieces s"]
  by (auto simp: next_ongoing_def all_indices_def split: sum.splits prod.splits option.splits)

lemma least_first_mem: "least_first c cs \<in> fst ` set (c # cs)"
  by (induction c cs rule: least_first.induct) auto

lemma piece_counts_subset:
  "piece_counts s peer_id ps = Inr cs \<Longrightarrow> fst ` set cs \<subseteq> set ps"
proof (induction ps arbitrary: cs)
  case Nil
  then show ?case by simp
next
  case (Cons p ps)
  then show ?case
    by (fastforce split: sum.splits if_splits)
qed

lemma get_rarest_piece_indices:
  assumes "get_rarest_piece s peer_id = Inr (s2, rarest)"
  shows "mset (all_indices s2) = mset (all_indices s) \<and> total_pieces s2 = total_pieces s
         \<and> ongoing_pieces s2 = ongoing_pieces s @ [rarest]"
proof -
  from assms obtain cs where cs: "piece_counts s peer_id (missing_pieces s) = Inr cs"
    and m: "py_min_by cs = Inr rarest"
    and s2: "s2 = s\<lparr>missing_pieces := remove1 rarest (missing_pieces s),
                     ongoing_pieces := ongoing_pieces s @ [rarest]\<rparr>"
    by (auto simp: get_rarest_piece_def split: sum.splits)
  from m obtain c cs' where "cs = c # cs'" and "rarest = least_first c cs'"
    by (auto simp: py_min_by_def split: list.splits)
  then have "rarest \<in> fst ` set cs"
    using least_first_mem [of c cs'] by simp
  with piece_counts_subset [OF cs] have mem: "rarest \<in> set (missing_pieces s)" by auto
  then have "mset (missing_pieces s) = mset (remove1 rarest (missing_pieces s)) + {#rarest#}"
    by simp
  then have "mset (map index (missing_pieces s))
             = mset (map index (remove1 rarest (missing_pieces s))) + {#index rarest#}"
    by (metis image_mset_add_mset image_mset_single mset_map union_mset_add_mset_right add.right_neutral)
  then show ?thesis by (simp add: s2 all_indices_def)
qed

lemma update_first_map:
  "(\<And>x. P x \<Longrightarrow> g (f x) = g x) \<Longrightarrow> map g (update_first P f xs) = map g xs"
  by (induction xs) auto

lemma remove_first_map:
  "map g (remove_first (\<lambda>q. g q = k) xs) = remove1 k (map g xs)"
  by (induction xs) auto

lemma Piece_block_received_index [simp]: "index (Piece_block_received p off d) = index p"
  by (simp add: Piece_block_received_def)

lemma Piece_reset_index [simp]: "index (Piece_reset p) = index p"
  by (simp add: Piece_reset_def)

lemma next_request_indices:
  "mset (all_indices (fst (next_request s peer_id now))) = mset (all_indices s)
   \<and> total_pieces (fst (next_request s peer_id now)) = total_pieces s"
proof (cases "next_ongoing s peer_id now")
  case (Inl e)
  then show ?thesis
    by (simp add: next_request_def split: sum.splits option.splits)
next
  case (Inr a)
  then obtain s1 r where a: "next_ongoing s peer_id now = Inr (s1, r)" by (cases a) auto
  note i1 = next_ongoing_indices [OF a]
  show ?thesis
  proof (cases "get_rarest_piece s1 peer_id")
    case (Inl e)
    then show ?thesis using a i1
      by (simp add: next_request_def split: sum.splits option.splits)
  next
    case (Inr b)
    then obtain s2 rarest where b: "get_rarest_piece s1 peer_id = Inr (s2, rarest)"
      by (cases b) auto
    note i2 = get_rarest_piece_indices [OF b]
    obtain rarest' r' where n: "Piece_next_request rarest = (rarest', r')"
      by (cases "Piece_next_request rarest") auto
    then have idx: "index rarest' = index rarest"
      by (rule Piece_next_request_index)
    have "all_indices (s2\<lparr>ongoing_pieces := butlast (ongoing_pieces s2) @ [rarest']\<rparr>)
          = all_indices s2"
      using i2 idx by (simp add: all_indices_def)
    then show ?thesis using a b n i1 i2
      by (simp add: next_request_def split: sum.splits option.splits)
  qed
qed

lemma block_received_indices:
  "mset (all_indices (fst (block_received sha1 s peer_id piece_index block_offset d)))
     = mset (all_indices s)
   \<and> total_pieces (fst (block_received sha1 s peer_id piece_index block_offset d))
     = total_pieces s"
proof (cases "filter (\<lambda>p. index p = piece_index) (ongoing_pieces s)")
  case Nil
  then show ?thesis by (simp add: block_received_def all_indices_def)
next
  case (Cons p ps)
  let ?P = "\<lambda>q. index q = piece_index"
  let ?p' = "Piece_block_received p block_offset d"
  have "p \<in> set (filter ?P (ongoing_pieces s))" using Cons by simp
  then have pin: "p \<in> set (ongoing_pieces s)" and pidx: "index p = piece_index" by auto
  have u1: "map index (update_first ?P (\<lambda>q. ?p') (ongoing_pieces s)) = map index (ongoing_pieces s)"
    by (rule update_first_map) (simp add: pidx)
  have u2: "map index (update_first ?P Piece_reset (update_first ?P (\<lambda>q. ?p') (ongoing_pieces s)))
            = map index (ongoing_pieces s)"
    using u1 by (simp add: update_first_map)
  have kin: "piece_index \<in> set (map index (ongoing_pieces s))" using pin pidx by force
  have u3: "mset (map index (remove_first ?P (update_first ?P (\<lambda>q. ?p') (ongoing_pieces s))))
              + {#piece_index#} = mset (map index (ongoing_pieces s))"
    using kin by (simp add: remove_first_map u1)
  have m1: "mset (map index (update_first ?P (\<lambda>q. ?p') (ongoing_pieces s)))
            = mset (map index (ongoing_pieces s))"
    by (simp only: u1)
  have m2: "mset (map index (update_first ?P Piece_reset
              (update_first ?P (\<lambda>q. ?p') (ongoing_pieces s))))
            = mset (map index (ongoing_pieces s))"
    by (simp only: u2)
  have m3: "mset (map index (remove_first ?P (update_first ?P (\<lambda>q. ?p') (ongoing_pieces s))))
              + {#index ?p'#} = mset (map index (ongoing_pieces s))"
    using u3 pidx by simp
  show ?thesis
    using Cons m1 m2 m3
    by (auto simp: block_received_def all_indices_def Let_def
        split: sum.splits bool.splits)
qed

text \<open>
  C5. Each public operation of the piece manager (\<^verbatim>\<open>add_peer\<close>,
  \<^verbatim>\<open>update_peer\<close>, \<^verbatim>\<open>remove_peer\<close>, \<^verbatim>\<open>next_request\<close>, \<^verbatim>\<open>block_received\<close>)
  keeps the invariant that every piece index occurs in exactly one of
  \<^verbatim>\<open>missing_pieces\<close>, \<^verbatim>\<open>ongoing_pieces\<close>, \<^verbatim>\<open>have_pieces\<close> and that their lengths
  add up to \<^verbatim>\<open>total_pieces\<close>; the state is the one the call leaves, whether it
  returns or raises.
\<close>

theorem piece_inv_preserved:
  assumes "piece_inv s"
  shows "piece_inv (add_peer s peer_id bitfield)
       \<and> piece_inv (fst (update_peer s peer_id i))
       \<and> piece_inv (remove_peer s peer_id)
       \<and> piece_inv (fst (next_request s peer_id now))
       \<and> piece_inv (fst (block_received sha1 s peer_id piece_index block_offset d))"
proof -
  have "piece_inv (add_peer s peer_id bitfield)"
    using assms by (simp add: piece_inv_def all_indices_def add_peer_def)
  moreover have "piece_inv (fst (update_peer s peer_id i))"
    using assms
    by (simp add: piece_inv_def all_indices_def update_peer_def split: option.splits sum.splits)
  moreover have "piece_inv (remove_peer s peer_id)"
    using assms by (simp add: piece_inv_def all_indices_def remove_peer_def)
  moreover have "piece_inv (fst (next_request s peer_id now))"
    using assms next_request_indices [of s peer_id now] piece_inv_cong by blast
  moreover have "piece_inv (fst (block_received sha1 s peer_id piece_index block_offset d))"
    using assms block_received_indices [of sha1 s peer_id piece_index block_offset d]
      piece_inv_cong by blast
  ultimately show ?thesis by simp
qed


lemma initiate_loop_index:
  "initiate_loop t tot std idx hs = Inr ps \<Longrightarrow>
     map index ps = map (\<lambda>k. idx + int k) [0..<length hs]"
proof (induction hs arbitrary: idx ps)
  case Nil
  then show ?case by simp
next
  case (Cons h hs)
  from Cons.prems obtain bs ps' where ps': "initiate_loop t tot std (idx + 1) hs = Inr ps'"
    and ps: "ps = \<lparr>index = idx, blocks = bs, hash = h\<rparr> # ps'"
    by (auto split: sum.splits)
  have "[0..<length (h # hs)] = 0 # map Suc [0..<length hs]"
    by (simp add: upt_conv_Cons map_Suc_upt del: upt_Suc)
  then show ?case
    using Cons.IH [OF ps'] ps by (simp add: comp_def algebra_simps)
qed

lemma new_PieceManager_inv:
  assumes "new_PieceManager t = Inr s"
  shows "piece_inv s"
proof -
  from assms obtain ps where ps: "initiate_pieces t = Inr ps"
    and s: "s = \<lparr>torrent = t, peers = [], pending_blocks = [], missing_pieces = ps,
               ongoing_pieces = [], have_pieces = [], max_pending_time = 300 * 1000,
               total_pieces = length (pieces t), written = []\<rparr>"
    by (auto simp: new_PieceManager_def split: sum.splits)
  from ps have idx: "map index ps = map int [0..<length (pieces t)]"
    using initiate_loop_index [of t _ _ 0 "pieces t" ps] by (simp add: initiate_pieces_def)
  have d: "distinct (map int [0..<length (pieces t)])"
    by (simp add: distinct_map)
  have "count (mset (map int [0..<length (pieces t)])) (int i) = 1" if "i < length (pieces t)" for i
    using d that unfolding distinct_count_atmost_1 by simp
  moreover have "length ps = length (pieces t)"
    using arg_cong [OF idx, of length] by simp
  ultimately show ?thesis
    unfolding piece_inv_mset by (simp add: s all_indices_def idx)
qed

text \<open>
  A run in which a piece moves through the three lists. A torrent of two
  pieces whose hashes are \<open>[9]\<close>, with the first byte of the data as the hash
  function: a peer registers with the first piece only, announces the second
  (\<^verbatim>\<open>Have\<close>), \<^verbatim>\<open>next_request\<close> moves piece 0 from \<^verbatim>\<open>missing_pieces\<close> to
  \<^verbatim>\<open>ongoing_pieces\<close>, \<^verbatim>\<open>block_received\<close> completes it and moves it to
  \<^verbatim>\<open>have_pieces\<close>, and the peer is removed. The invariant holds after every
  step.
\<close>

theorem piece_inv_preserved_witness:
  "(case new_PieceManager \<lparr>pieces = [[9], [9]], piece_length = 16384, total_size = 20000\<rparr> of
      Inl e \<Rightarrow> False
    | Inr s0 \<Rightarrow>
        (let s1 = add_peer s0 [7] [True, False];
             s2 = fst (update_peer s1 [7] 1);
             s3 = fst (next_request s2 [7] 0);
             s4 = fst (block_received (take 1) s3 [7] 0 0 [9, 9, 9]);
             s5 = remove_peer s4 [7]
         in map (\<lambda>s. (map index (missing_pieces s), map index (ongoing_pieces s),
                        map index (have_pieces s))) [s0, s1, s2, s3, s4, s5]
              = [([0, 1], [], []), ([0, 1], [], []), ([0, 1], [], []),
                 ([1], [0], []), ([1], [], [0]), ([1], [], [0])]
            \<and> map peers [s1, s2, s5] = [[([7], [True, False])], [([7], [True, True])], []]
            \<and> piece_inv s0 \<and> piece_inv s1 \<and> piece_inv s2 \<and> piece_inv s3
            \<and> piece_inv s4 \<and> piece_inv s5))"
proof -
  let ?T = "\<lparr>pieces = [[9], [9]], piece_length = 16384, total_size = 20000\<rparr>"
  let ?p0 = "\<lambda>st dt. \<lparr>index = 0,
      blocks = [\<lparr>piece = 0, offset = 0, block_length = 16384, status = st, data = dt\<rparr>],
      hash = [9 :: byte]\<rparr>"
  let ?p1 = "\<lparr>index = 1,
      blocks = [\<lparr>piece = 1, offset = 0, block_length = 3616, status = Missing, data = None\<rparr>],
      hash = [9 :: byte]\<rparr>"
  let ?M = "\<lambda>prs ms os hs w. \<lparr>torrent = ?T, peers = prs, pending_blocks = [],
      missing_pieces = ms, ongoing_pieces = os, have_pieces = hs, max_pending_time = 300000,
      total_pieces = 2, written = w\<rparr>"
  let ?s0 = "?M [] [?p0 Missing None, ?p1] [] [] []"
  let ?s1 = "?M [([7], [True, False])] [?p0 Missing None, ?p1] [] [] []"
  let ?s2 = "?M [([7], [True, True])] [?p0 Missing None, ?p1] [] [] []"
  let ?s3 = "?M [([7], [True, True])] [?p1] [?p0 Pending None] [] []"
  let ?s4 = "?M [([7], [True, True])] [?p1] [] [?p0 Retrieved (Some [9, 9, 9])] [(0, [9, 9, 9])]"
  let ?s5 = "?M [] [?p1] [] [?p0 Retrieved (Some [9, 9, 9])] [(0, [9, 9, 9])]"
  have e0: "new_PieceManager ?T = Inr ?s0"
    by (simp add: manager_simps)
  have e1: "add_peer ?s0 [7] [True, False] = ?s1"
    by (simp add: add_peer_def)
  have e2: "fst (update_peer ?s1 [7] 1) = ?s2"
    by (simp add: update_peer_def bit_set_def)
  have e3: "fst (next_request ?s2 [7] 0) = ?s3"
    by (simp add: manager_simps)
  have e4: "fst (block_received (take 1) ?s3 [7] 0 0 [9, 9, 9]) = ?s4"
    by (simp add: block_received_def Piece_block_received_def Piece_is_complete_def
        Piece_is_hash_matching_def Piece_data_def)
  have e5: "remove_peer ?s4 [7] = ?s5"
    by (simp add: remove_peer_def)
  have i0: "piece_inv ?s0"
    by (simp add: piece_inv_def all_indices_def numeral_2_eq_2)
  have i1: "piece_inv ?s1"
    using piece_inv_preserved [OF i0, where peer_id = "[7]" and bitfield = "[True, False]"]
    by (simp only: e1)
  have i2: "piece_inv ?s2"
    using piece_inv_preserved [OF i1, where peer_id = "[7]" and i = 1] by (simp only: e2)
  have i3: "piece_inv ?s3"
    using piece_inv_preserved [OF i2, where peer_id = "[7]" and now = 0] by (simp only: e3)
  have i4: "piece_inv ?s4"
    using piece_inv_preserved [OF i3, where peer_id = "[7]" and ?sha1.0 = "take 1"
        and piece_index = 0 and block_offset = 0 and d = "[9, 9, 9]"]
    by (simp only: e4)
  have i5: "piece_inv ?s5"
    using piece_inv_preserved [OF i4, where peer_id = "[7]"] by (simp only: e5)
  show ?thesis
    unfolding e0 sum.case Let_def e1 e2 e3 e4 e5
    using i0 i1 i2 i3 i4 i5 by simp
qed

section \<open>Frames of the wire protocol\<close>

text \<open>
  C3. Three buffers of five bytes. The first holds the prefix 5 and the id of
  \<^verbatim>\<open>Have\<close> but not the 9 bytes of the frame: \<^verbatim>\<open>parse\<close> does not return \<open>None\<close>,
  it empties the buffer and raises \<^verbatim>\<open>struct.error\<close>. The second holds the
  prefix 3 and the id of \<^verbatim>\<open>Interested\<close>, fewer than \<open>4 + 3\<close> bytes: a message is
  returned. The third starts with a keep-alive frame: the message is returned
  and none of its four bytes is consumed.
\<close>

theorem parse_short_buffer: "parse [0, 0, 0, 5, 4] = (Inl StructError, [])
   \<and> parse [0, 0, 0, 3, 2] = (Inr (Some Interested), [])
   \<and> parse [0, 0, 0, 0, 2] = (Inr (Some KeepAlive), [0, 0, 0, 0, 2])"
  by (simp add: parse_def dispatch_def unpack_u32_def Have_decode_def)

lemma be32_length [simp]: "length (be32 n) = 4"
  by (simp add: be32_def)

lemma byte_mod: "uint (word_of_int k :: byte) = k mod 256"
  by (simp add: uint_word_of_int take_bit_eq_mod)

lemma unpack_be32:
  assumes "u32 n"
  shows "unpack_u32 (be32 n) = n"
proof -
  have n: "0 \<le> n" "n < 4294967296" using assms by (simp_all add: u32_def)
  define q1 where "q1 = n div 256"
  define q2 where "q2 = q1 div 256"
  define q3 where "q3 = q2 div 256"
  define x0 where "x0 = n mod 256"
  define x1 where "x1 = q1 mod 256"
  define x2 where "x2 = q2 mod 256"
  have e: "n = 256 * q1 + x0" "q1 = 256 * q2 + x1" "q2 = 256 * q3 + x2"
    by (simp_all add: q1_def q2_def q3_def x0_def x1_def x2_def)
  have b: "0 \<le> x0" "x0 < 256" "0 \<le> x1" "x1 < 256" "0 \<le> x2" "x2 < 256"
    by (simp_all add: x0_def x1_def x2_def)
  have d2: "n div 65536 = q2" by (simp add: q1_def q2_def zdiv_zmult2_eq [symmetric])
  have d3: "n div 16777216 = q3"
    by (simp add: q1_def q2_def q3_def zdiv_zmult2_eq [symmetric])
  have "0 \<le> q3" "q3 < 256" using n e b by linarith+
  then have m3: "q3 mod 256 = q3" by simp
  have "unpack_u32 (be32 n) = ((q3 mod 256 * 256 + x2) * 256 + x1) * 256 + x0"
    by (simp add: unpack_u32_def be32_def byte_mod d2 d3 q1_def [symmetric]
        x0_def x1_def x2_def)
  also have "\<dots> = n" unfolding m3 using e by algebra
  finally show ?thesis .
qed


lemma frame_head:
  "take 4 (be32 n @ x # xs) = be32 n" "(be32 n @ x # xs) ! 4 = x"
  "drop 5 (be32 n @ x # xs) = xs" "drop 4 (be32 n @ xs) = xs" "take 4 (be32 n @ xs) = be32 n"
  by (simp_all add: nth_append)

text \<open>
  What holds of \<^verbatim>\<open>parse\<close>: a buffer of at most four bytes gives \<open>None\<close> and
  is left as it is, and a buffer that starts with a whole frame (other than a
  keep-alive) is dispatched on that frame, the bytes after it left over.
\<close>

lemma parse_few_bytes: "length buffer \<le> 4 \<Longrightarrow> parse buffer = (Inr None, buffer)"
  by (simp add: parse_def)

lemma parse_frame_trailing:
  assumes "u32 len" and "0 < len" and "int (length body) = len - 1"
  shows "parse (be32 len @ ident # body @ rest)
         = dispatch (sint ident) (be32 len @ ident # body) rest (be32 len @ ident # body @ rest)"
proof -
  let ?buf = "be32 len @ ident # body @ rest"
  have l: "unpack_u32 (take 4 ?buf) = len"
    using assms(1) by (simp only: frame_head unpack_be32)
  have n: "nat (4 + len) = length (be32 len @ ident # body)" using assms by simp
  have i: "?buf ! 4 = ident" by (simp only: frame_head)
  have g: "length ?buf > 4" "int (length ?buf) \<ge> len" using assms by simp_all
  have t: "take (length (be32 len @ ident # body)) ?buf = be32 len @ ident # body"
    "drop (length (be32 len @ ident # body)) ?buf = rest"
    by simp_all
  show ?thesis
    unfolding parse_def l Let_def n i t using g assms(2) by simp
qed

lemma parse_one_frame:
  assumes "u32 len" and "0 < len" and "int (length body) = len - 1"
  shows "parse (be32 len @ ident # body)
         = dispatch (sint ident) (be32 len @ ident # body) [] (be32 len @ ident # body)"
  using parse_frame_trailing [OF assms, of ident "[]"] by simp

lemma u32_small: "u32 1" "u32 5" "u32 13"
  by (simp_all add: u32_def)

lemma parse_Interested: "parse (be32 1 @ [2]) = (Inr (Some Interested), [])"
  by (subst parse_one_frame) (simp_all add: u32_small dispatch_def)

lemma parse_Have:
  assumes "u32 i"
  shows "parse (be32 5 @ 4 # be32 i) = (Inr (Some (Have i)), [])"
  using assms
  by (subst parse_one_frame)
     (simp_all add: u32_small dispatch_def Have_decode_def frame_head unpack_be32)

lemma parse_Request:
  assumes "u32 i" "u32 b" "u32 l"
  shows "parse (be32 13 @ 6 # be32 i @ be32 b @ be32 l) = (Inr (Some (Request i b l)), [])"
  using assms
  by (subst parse_one_frame)
     (simp_all add: u32_small dispatch_def Request_decode_def unpack_be32)

lemma parse_Cancel:
  assumes "u32 i" "u32 b" "u32 l"
  shows "parse (be32 13 @ 8 # be32 i @ be32 b @ be32 l) = (Inr (Some (Cancel i b l)), [])"
  using assms
  by (subst parse_one_frame)
     (simp_all add: u32_small dispatch_def Cancel_decode_def unpack_be32)

lemma Piece_decode_frame:
  assumes "u32 i" "u32 b" "u32 (9 + int (length blk))"
  shows "Piece_decode (be32 (9 + int (length blk)) @ 7 # be32 i @ be32 b @ blk)
         = Inr (Piece_message i b blk)"
proof -
  let ?buf = "be32 (9 + int (length blk)) @ 7 # be32 i @ be32 b @ blk"
  have l: "unpack_u32 (take 4 ?buf) = 9 + int (length blk)"
    using assms(3) by (simp only: frame_head unpack_be32)
  have t: "take (nat (9 + int (length blk) + 4)) ?buf = ?buf" by simp
  have f: "unpack_u32 (take 4 (drop 5 ?buf)) = i" "unpack_u32 (take 4 (drop 9 ?buf)) = b"
    "drop 13 ?buf = blk"
    using assms by (simp_all add: unpack_be32)
  have n: "length (take 4 ?buf) = 4" "int (length ?buf) = 9 + int (length blk) + 4" by simp_all
  show ?thesis
    unfolding Piece_decode_def l Let_def t f using n by simp
qed

lemma parse_Piece:
  assumes "u32 i" "u32 b" "u32 (9 + int (length blk))"
  shows "parse (be32 (9 + int (length blk)) @ 7 # be32 i @ be32 b @ blk)
         = (Inr (Some (Piece_message i b blk)), [])"
  using assms(3)
  by (subst parse_one_frame)
     (simp_all add: dispatch_def Piece_decode_frame [OF assms])

lemma encode_parse_frame:
  assumes "encodable m"
  shows "\<exists>frame. encode m = Inr frame \<and> parse frame = (Inr (Some m), [])"
proof (cases m)
  case Interested
  then show ?thesis using parse_Interested by (simp add: pack_frame_def u32_small)
next
  case (Have i)
  then show ?thesis using assms parse_Have [of i] by (simp add: pack_frame_def u32_small)
next
  case (Request i b l)
  then show ?thesis using assms parse_Request [of i b l] by (simp add: pack_frame_def u32_small)
next
  case (Cancel i b l)
  then show ?thesis using assms parse_Cancel [of i b l] by (simp add: pack_frame_def u32_small)
next
  case (Piece_message i b blk)
  then show ?thesis using assms parse_Piece [of i b blk] by (simp add: pack_frame_def)
qed (use assms in simp_all)

text \<open>
  C9 (amended). For each typed message that has an encoder and whose fields
  fit the frame (\<^verbatim>\<open>Interested\<close>, \<^verbatim>\<open>Have\<close>, \<^verbatim>\<open>Request\<close>, \<^verbatim>\<open>Piece\<close>,
  \<^verbatim>\<open>Cancel\<close>, with unsigned 32-bit fields and length prefix), parsing the
  frame that \<^verbatim>\<open>encode\<close> produces returns the message itself and consumes the
  whole frame.
\<close>

theorem encode_parse_roundtrip:
  assumes "encodable m"
  shows "decode_encoded m = Inr (Some m)
       \<and> (\<exists>frame. encode m = Inr frame \<and> parse frame = (Inr (Some m), []))"
  using encode_parse_frame [OF assms] by (auto simp: decode_encoded_def)

theorem encode_parse_roundtrip_witness:
  "encodable (Have 5)
   \<and> encode (Have 5) = Inr [0, 0, 0, 5, 4, 0, 0, 0, 5]
   \<and> parse [0, 0, 0, 5, 4, 0, 0, 0, 5] = (Inr (Some (Have 5)), [])
   \<and> decode_encoded (Have 5) = Inr (Some (Have 5))"
proof -
  have e: "encodable (Have 5)" by (simp add: u32_def)
  have f: "encode (Have 5) = Inr [0, 0, 0, 5, 4, 0, 0, 0, 5]"
    by (simp add: pack_frame_def u32_def be32_def)
  from encode_parse_roundtrip [OF e] f e show ?thesis by simp
qed

text \<open>
  C9 as stated fails for the messages without an encoder: \<^verbatim>\<open>stall\<close> (Choke)
  has no method \<^verbatim>\<open>encode\<close>, so no frame is produced that could be decoded.
\<close>

theorem stall_roundtrip_counterexample:
  "decode_encoded stall = Inl AttributeError \<and> decode_encoded stall \<noteq> Inr (Some stall)"
  by (simp add: decode_encoded_def)

section \<open>The peer session\<close>

text \<open>
  C6 (amended). An active session whose local flags contain \<^verbatim>\<open>interested\<close>
  but neither \<^verbatim>\<open>stalled\<close> nor \<^verbatim>\<open>pending_request\<close> performs the request step
  and \<^verbatim>\<open>next_request\<close> returns no block: no \<^verbatim>\<open>Request\<close> is written, the step
  ends without an exception, and the local flags contain \<^verbatim>\<open>pending_request\<close>
  afterwards (the flag is appended before the scheduler is asked and nothing
  removes it).
\<close>

theorem request_step_no_block:
  assumes "''interested'' \<in> set (my_state c)" and "''stalled'' \<notin> set (my_state c)"
    and "''pending_request'' \<notin> set (my_state c)"
    and "snd (next_request m (remote_id c) now) = Inr None"
  shows "''pending_request'' \<in> set (my_state (fst (fst (request_step c m now))))
       \<and> writer (fst (fst (request_step c m now))) = writer c
       \<and> snd (request_step c m now) = Inr ()"
  using assms
  by (cases "next_request m (remote_id c) now")
     (simp add: request_step_def request_piece_def)

theorem request_step_no_block_witness:
  "''pending_request'' \<in> set (my_state (fst (fst (request_step unstalled_session fresh_manager 0))))
   \<and> writer (fst (fst (request_step unstalled_session fresh_manager 0))) = []
   \<and> snd (request_step unstalled_session fresh_manager 0) = Inr ()"
  using request_step_no_block [of unstalled_session fresh_manager 0]
  by (simp add: unstalled_session_def fresh_manager_def next_request_def)

text \<open>
  C6 as stated fails: for the unchoked session and a piece manager that does
  not know the peer, \<^verbatim>\<open>next_request\<close> returns \<open>None\<close> and the flag
  \<^verbatim>\<open>pending_request\<close> is set after the step.
\<close>

theorem request_step_pending_counterexample:
  "''interested'' \<in> set (my_state unstalled_session)
   \<and> ''stalled'' \<notin> set (my_state unstalled_session)
   \<and> ''pending_request'' \<notin> set (my_state unstalled_session)
   \<and> snd (next_request fresh_manager (remote_id unstalled_session) 0) = Inr None
   \<and> ''pending_request'' \<in> set (my_state (fst (fst (request_step unstalled_session fresh_manager 0))))"
  by (simp add: unstalled_session_def fresh_manager_def next_request_def request_step_def
      request_piece_def)

text \<open>
  C10. An active session (not stopped) whose local flags do not contain
  \<^verbatim>\<open>pending_request\<close> receives a \<^verbatim>\<open>Piece\<close> message: removing the absent flag
  raises \<^verbatim>\<open>ValueError\<close>, the piece manager is left as it was whatever the
  callback is (the callback is not reached), and the session is cancelled.
\<close>

theorem piece_without_pending_request:
  assumes "''stopped'' \<notin> set (my_state c)" and "''pending_request'' \<notin> set (my_state c)"
  shows "session_turn on_block_cb c m (Piece_message i bgn blk) now
         = ((cancel c, m), Inl ValueError)"
  using assms by (simp add: session_turn_def loop_body_def handle_message_def)

theorem piece_without_pending_request_witness:
  "session_turn (block_received (\<lambda>d. [])) unstalled_session fresh_manager
     (Piece_message 0 0 [1, 2]) 0
   = ((unstalled_session\<lparr>closed := True\<rparr>, fresh_manager), Inl ValueError)"
  using piece_without_pending_request [of unstalled_session "block_received (\<lambda>d. [])" fresh_manager 0 0 "[1, 2]" 0]
  by (simp add: unstalled_session_def cancel_def)

section \<open>The bencoding codec\<close>

lemmas codec_simps =
  decode_encode_def decode_data_def Encoder_encode_def Encoder_encode_int_def
  Encoder_encode_bytes_def Encoder_encode_dict_def Decoder_init_def Decoder_decode_def
  Decoder_peek_def Decoder_decode_string_def Decoder_read_until_def Decoder_read_def
  Decoder_consume_def py_getitem_def py_slice_def py_index_from_def clip_def py_int_def
  int_eq_bytes_def is_space_def is_digit_def str_int_def
  TOKEN_STRING_SEPERATOR_def Let_def

lemma index_of_None: "c \<notin> set xs \<Longrightarrow> index_of c xs = None"
  by (induction xs) auto

lemma digit_nth_mem: "k < 10 \<Longrightarrow> ''0123456789'' ! k \<in> set ''0123456789''"
  by (rule nth_mem) simp

lemma str_nat_digits: "set (str_nat n) \<subseteq> set ''0123456789''"
proof (induction n rule: str_nat.induct)
  case (1 n)
  show ?case
  proof (cases "n < 10")
    case True
    then show ?thesis using digit_nth_mem [of n] by (subst str_nat.simps) simp
  next
    case False
    have "n mod 10 < 10" by simp
    then have "''0123456789'' ! (n mod 10) \<in> set ''0123456789''" by (rule digit_nth_mem)
    then show ?thesis using False 1 by (subst str_nat.simps) simp
  qed
qed

lemma str_nat_nonempty: "str_nat n \<noteq> []"
  by (subst str_nat.simps) simp

lemma str_int_no_separator: "CHR '':'' \<notin> set (str_int n)"
  using str_nat_digits by (auto simp: str_int_def)

lemma str_int_nonempty: "str_int n \<noteq> []"
  by (simp add: str_int_def str_nat_nonempty)

text \<open>
  An encoded integer \<open>i<digits>e\<close> is never decoded: the byte looked at is the
  first of the digits (or the sign), and no separator follows.
\<close>

lemma decode_encoded_int: "decode_encode (PyInt n) = Inl RuntimeError"
proof -
  obtain c cs where s: "str_int n = c # cs"
    using str_int_nonempty [of n] by (cases "str_int n") auto
  have sep: "CHR '':'' \<notin> set (c # cs)" using str_int_no_separator [of n] s by simp
  then have "index_of CHR '':'' (CHR ''i'' # c # cs @ ''e'') = None"
    by (intro index_of_None) auto
  then show ?thesis
    by (simp add: decode_encode_def decode_data_def Encoder_encode_def Encoder_encode_int_def
        Decoder_init_def Decoder_decode_def Decoder_peek_def Decoder_decode_string_def
        Decoder_read_until_def py_getitem_def py_index_from_def clip_def int_eq_bytes_def
        TOKEN_STRING_SEPERATOR_def s)
qed

text \<open>No value at all survives encoding and decoding.\<close>

lemma decode_encode_raises: "\<exists>e. decode_encode x = Inl e"
proof (cases x)
  case (PyInt n)
  then show ?thesis by (simp add: decode_encoded_int)
next
  case (PyDict items)
  then show ?thesis
    by (cases items)
       (simp_all add: decode_encode_def decode_data_def Encoder_encode_def
          Encoder_encode_dict_def Decoder_init_def)
qed (simp_all add: decode_encode_def decode_data_def Encoder_encode_def
       Encoder_encode_bytes_def Decoder_init_def)

text \<open>
  C1. The integer 5 is encoded to \<open>i5e\<close>; decoding these bytes raises
  \<^verbatim>\<open>RuntimeError\<close> and does not return 5: \<^verbatim>\<open>_peek\<close> looks at the second
  byte, \<open>5\<close>, the decoder takes it for the length of a byte string and finds
  no separator. The byte string \<open>spam\<close> is encoded to a \<^verbatim>\<open>bytearray\<close>, which
  the decoder's constructor refuses; a list is encoded to \<open>None\<close>; a
  dictionary with an item is not encoded at all.
\<close>

theorem decode_encode_examples:
  "decode_encode (PyInt 5) = Inl RuntimeError
   \<and> decode_encode (PyBytes ''spam'') = Inl TypeError
   \<and> decode_encode (PyList [PyInt 5]) = Inl TypeError
   \<and> decode_encode (PyDict [(PyBytes ''cow'', PyBytes ''moo'')]) = Inl AttributeError"
  by (simp add: codec_simps str_nat.simps)

text \<open>
  The decoder alone, on \<^verbatim>\<open>bytes\<close> in canonical form: short byte strings,
  integers and dictionaries raise; a byte string whose length has two digits
  is decoded.
\<close>

lemma decode_data_examples:
  "decode_data (PyBytes ''4:spam'') = Inl RuntimeError
   \<and> decode_data (PyBytes ''i5e'') = Inl RuntimeError
   \<and> decode_data (PyBytes ''d3:cow3:mooe'') = Inl ValueError
   \<and> decode_data (PyBytes ''10:abcdefghij'') = Inr (PyBytes ''abcdefghij'')"
  by (simp add: codec_simps)

lemma dropWhile_snoc_keep: "\<not> P x \<Longrightarrow> \<exists>zs. dropWhile P (ys @ [x]) = zs @ [x]"
  by (induction ys) auto

lemma py_int_letter:
  assumes "\<not> is_space c" and "\<not> is_digit c" and "c \<noteq> CHR ''-''" and "c \<noteq> CHR ''+''"
  shows "py_int (c # cs) = Inl ValueError"
proof -
  obtain zs where "dropWhile is_space (rev cs @ [c]) = zs @ [c]"
    using dropWhile_snoc_keep [of is_space c "rev cs"] assms(1) by blast
  then have "rev (dropWhile is_space (rev (dropWhile is_space (c # cs)))) = c # rev zs"
    using assms(1) by simp
  then show ?thesis using assms by (simp add: py_int_def)
qed

lemma index_of_Some_less: "index_of c xs = Some k \<Longrightarrow> k < length xs"
  by (induction xs arbitrary: k) (auto split: if_splits)

text \<open>
  A body that is a bencoded dictionary, \<open>d...\<close>, is never decoded: the length
  of the first key is read from the start of the data, \<open>d\<close> included.
\<close>

lemma decode_dictionary_raises: "\<exists>e. decode_data (PyBytes (CHR ''d'' # rest)) = Inl e"
proof (cases "index_of CHR '':'' rest")
  case None
  then show ?thesis
    by (simp add: decode_data_def Decoder_init_def Decoder_decode_def Decoder_peek_def
        Decoder_decode_string_def Decoder_read_until_def py_getitem_def py_index_from_def
        clip_def int_eq_bytes_def TOKEN_STRING_SEPERATOR_def split: sum.splits)
next
  case (Some k)
  have d: "py_int (CHR ''d'' # take k rest) = Inl ValueError"
    by (rule py_int_letter) (simp_all add: is_space_def is_digit_def)
  have n: "nat (1 + int k) = Suc k" by simp
  show ?thesis using Some d index_of_Some_less [OF Some]
    by (simp add: n decode_data_def Decoder_init_def Decoder_decode_def Decoder_peek_def
        Decoder_decode_string_def Decoder_read_until_def py_getitem_def py_index_from_def
        py_slice_def clip_def int_eq_bytes_def TOKEN_STRING_SEPERATOR_def split: sum.splits)
qed

section \<open>The tracker's answer\<close>

lemma Tracker_connect_ok_raises:
  "http_status response = 200 \<Longrightarrow> Tracker_connect response = Inl AttributeError"
  by (simp add: Tracker_connect_def Tracker_raise_for_error_def)

lemma Tracker_connect_not_ok:
  "http_status response \<noteq> 200 \<Longrightarrow> Tracker_connect response = Inl ConnectionError"
  by (simp add: Tracker_connect_def)

text \<open>
  C8. An answer with status 200 whose body is the dictionary with the key
  \<open>failure reason\<close>, and one whose body is a regular answer (\<open>interval\<close> and an
  empty compact peer list): \<^verbatim>\<open>connect\<close> raises \<^verbatim>\<open>AttributeError\<close> for both,
  at the call of the method \<^verbatim>\<open>raise_for_error\<close> that the class lacks; no
  failure message is carried and no \<^verbatim>\<open>TrackerResponse\<close> is returned. The
  decoder that the last line of \<^verbatim>\<open>connect\<close> would run raises on both bodies as
  well. An answer with status 404 raises \<^verbatim>\<open>ConnectionError\<close>.
\<close>

theorem Tracker_connect_examples:
  "Tracker_connect \<lparr>http_status = 200, http_body = ''d14:failure reason9:not founde''\<rparr>
     = Inl AttributeError
   \<and> Tracker_connect \<lparr>http_status = 200, http_body = ''d8:intervali1800e5:peers0:e''\<rparr>
     = Inl AttributeError
   \<and> decode_data (PyBytes ''d14:failure reason9:not founde'') = Inl ValueError
   \<and> decode_data (PyBytes ''d8:intervali1800e5:peers0:e'') = Inl ValueError
   \<and> Tracker_connect \<lparr>http_status = 404, http_body = []\<rparr> = Inl ConnectionError"
  by (simp add: Tracker_connect_def Tracker_raise_for_error_def codec_simps)

end
